theory Spec2Isabelle
  imports Complex_Main
begin

section \<open>Python values\<close>

text \<open>
  The validator of \<^verbatim>\<open>src/validator.py\<close> receives loosely typed scalars: the cells of a
  pandas row. A cell is \<^verbatim>\<open>None\<close>, pandas' \<^verbatim>\<open>pd.NA\<close>, a boolean, an integer, a float or a
  string. A float is a finite value (kept here as the rational it denotes), negative zero,
  an infinity or NaN; pandas writes a missing cell as the float NaN, and as \<^verbatim>\<open>pd.NA\<close> in a
  column of a nullable type. Strings are lists of 8-bit characters, read as the code
  points 0..255.
\<close>

datatype pyfloat = FFin rat | FNegZero | FPosInf | FNegInf | FNaN

datatype pyval = VNone | VNA | VBool bool | VInt int | VFloat pyfloat | VStr string

datatype pyexn = TypeError | ValueError | OverflowError

text \<open>
  What the interpreter and pandas compute and the repository does not define is taken
  as a parameter: \<^verbatim>\<open>float(s)\<close> on a string (\<open>None\<close> where it raises ValueError), the
  \<^verbatim>\<open>repr\<close> of a finite float that is not a whole number below \<open>10^16\<close>, whether
  \<^verbatim>\<open>pd.to_datetime\<close> accepts a value, and the interpreter's limit on the digits of an
  integer turned into a string (\<^verbatim>\<open>sys.get_int_max_str_digits()\<close>, 4300 unless configured,
  0 for no limit). Every theorem with a free \<open>L\<close> holds for all of them.
\<close>

record pylib =
  float_of_str :: "string \<Rightarrow> pyfloat option"
  repr_other :: "rat \<Rightarrow> string"
  to_datetime_ok :: "pyval \<Rightarrow> bool"
  int_max_str_digits :: nat

text \<open>
  The library under which no string is a float literal and no value is a date, with the
  interpreter's default digit limit. The
  instances on concrete inputs below are stated under it. Their inputs either never reach
  a field of it, or are strings that Python rejects as it does: the word \<^verbatim>\<open>abc\<close> as a
  number, a timestamp with month 13 as a date.
\<close>

definition lib_none :: pylib where
  "lib_none = \<lparr>float_of_str = (\<lambda>s. None), repr_other = (\<lambda>r. []), to_datetime_ok = (\<lambda>v. False),
                int_max_str_digits = 4300\<rparr>"

subsection \<open>Exceptions\<close>

definition bind_exn :: "pyexn + 'a \<Rightarrow> ('a \<Rightarrow> pyexn + 'b) \<Rightarrow> pyexn + 'b" where
  "bind_exn m f = (case m of Inl e \<Rightarrow> Inl e | Inr x \<Rightarrow> f x)"

text \<open>
  \<^verbatim>\<open>try: body except: handler\<close>: the bare \<^verbatim>\<open>except\<close> catches everything the body raises;
  what the handler raises itself is not caught.
\<close>

definition try_except :: "pyexn + 'a \<Rightarrow> pyexn + 'a \<Rightarrow> pyexn + 'a" where
  "try_except body handler = (case body of Inl e \<Rightarrow> handler | Inr r \<Rightarrow> Inr r)"

subsection \<open>Float comparison\<close>

text \<open>IEEE comparison: every comparison with NaN is false; negative zero equals zero.\<close>

fun f_less :: "pyfloat \<Rightarrow> pyfloat \<Rightarrow> bool" where
  "f_less FNaN y = False"
| "f_less x FNaN = False"
| "f_less FPosInf y = False"
| "f_less x FNegInf = False"
| "f_less FNegInf y = True"
| "f_less x FPosInf = True"
| "f_less (FFin a) (FFin b) = (a < b)"
| "f_less (FFin a) FNegZero = (a < 0)"
| "f_less FNegZero (FFin b) = (0 < b)"
| "f_less FNegZero FNegZero = False"

text \<open>\<^verbatim>\<open>x < n\<close> and \<open>x > n\<close> for a float \<open>x\<close> and an integer constant \<open>n\<close>: Python compares
  the two exactly.\<close>

definition f_less_int :: "pyfloat \<Rightarrow> int \<Rightarrow> bool" where
  "f_less_int x n = f_less x (FFin (of_int n))"

definition f_greater_int :: "pyfloat \<Rightarrow> int \<Rightarrow> bool" where
  "f_greater_int x n = f_less (FFin (of_int n)) x"

subsection \<open>Conversions\<close>

function bit_length :: "int \<Rightarrow> nat" where
  "bit_length n = (if n \<le> 0 then 0 else Suc (bit_length (n div 2)))"
  by pat_completeness auto
termination
  by (relation "measure nat") auto

declare bit_length.simps [simp del]

text \<open>
  \<^verbatim>\<open>float(n)\<close> for an integer: exact up to 53 bits, beyond that rounded to 53 significant
  bits, ties to even, and OverflowError when the rounded value reaches \<open>2^1024\<close>.
\<close>

definition float_of_int :: "int \<Rightarrow> pyexn + pyfloat" where
  "float_of_int n =
     (let a = \<bar>n\<bar> in
      if a \<le> 2 ^ 53 then Inr (FFin (of_int n))
      else
        let sh = bit_length a - 53; q = a div 2 ^ sh; r = a mod 2 ^ sh; h = 2 ^ (sh - 1);
            m = (if h < r \<or> (r = h \<and> odd q) then q + 1 else q);
            v = m * 2 ^ sh
        in if 2 ^ 1024 \<le> v then Inl OverflowError
           else Inr (FFin (of_int (sgn n * v))))"

fun py_float :: "pylib \<Rightarrow> pyval \<Rightarrow> pyexn + pyfloat" where
  "py_float L VNone = Inl TypeError"
| "py_float L VNA = Inl TypeError"
| "py_float L (VBool b) = Inr (FFin (if b then 1 else 0))"
| "py_float L (VInt n) = float_of_int n"
| "py_float L (VFloat x) = Inr x"
| "py_float L (VStr s) = (case float_of_str L s of None \<Rightarrow> Inl ValueError | Some x \<Rightarrow> Inr x)"

text \<open>\<^verbatim>\<open>int(x)\<close> for a float: truncation towards zero; NaN and the infinities raise.\<close>

fun int_of_float :: "pyfloat \<Rightarrow> pyexn + int" where
  "int_of_float (FFin r) = Inr (if 0 \<le> r then \<lfloor>r\<rfloor> else \<lceil>r\<rceil>)"
| "int_of_float FNegZero = Inr 0"
| "int_of_float FPosInf = Inl OverflowError"
| "int_of_float FNegInf = Inl OverflowError"
| "int_of_float FNaN = Inl ValueError"

subsection \<open>Rendering\<close>

definition digit_char :: "nat \<Rightarrow> char" where
  "digit_char d = ''0123456789'' ! d"

text \<open>The decimal digits of an integer that is not negative.\<close>

function digits_str :: "int \<Rightarrow> string" where
  "digits_str n =
     (if n < 10 then [digit_char (nat n)]
      else digits_str (n div 10) @ [digit_char (nat (n mod 10))])"
  by pat_completeness auto
termination
  by (relation "measure nat") auto

declare digits_str.simps [simp del]

definition int_str :: "int \<Rightarrow> string" where
  "int_str n = (if n < 0 then CHR ''-'' # digits_str (- n) else digits_str n)"

text \<open>
  \<^verbatim>\<open>str(n)\<close> for an integer, also in an f-string. A string of more than 640 characters whose
  digits exceed the interpreter's limit is not built: the conversion raises ValueError.
\<close>

definition py_int_str :: "pylib \<Rightarrow> int \<Rightarrow> pyexn + string" where
  "py_int_str L n =
     (if 640 < length (int_str n) \<and> 0 < int_max_str_digits L
         \<and> int_max_str_digits L < length (digits_str \<bar>n\<bar>)
      then Inl ValueError else Inr (int_str n))"

text \<open>
  \<^verbatim>\<open>repr\<close> of a float, which is also its \<^verbatim>\<open>str\<close> and its rendering in an f-string: a whole
  number of magnitude below \<open>10^16\<close> is its digits followed by \<^verbatim>\<open>.0\<close>.
\<close>

definition float_repr :: "pylib \<Rightarrow> pyfloat \<Rightarrow> string" where
  "float_repr L x =
     (case x of
        FFin r \<Rightarrow>
          if r = of_int \<lfloor>r\<rfloor> \<and> \<bar>r\<bar> < 10 ^ 16 then int_str \<lfloor>r\<rfloor> @ ''.0'' else repr_other L r
      | FNegZero \<Rightarrow> ''-0.0''
      | FPosInf \<Rightarrow> ''inf''
      | FNegInf \<Rightarrow> ''-inf''
      | FNaN \<Rightarrow> ''nan'')"

text \<open>\<^verbatim>\<open>str(value)\<close>, which is also how an f-string renders the value.\<close>

fun py_str :: "pylib \<Rightarrow> pyval \<Rightarrow> pyexn + string" where
  "py_str L VNone = Inr ''None''"
| "py_str L VNA = Inr ''<NA>''"
| "py_str L (VBool b) = Inr (if b then ''True'' else ''False'')"
| "py_str L (VInt n) = py_int_str L n"
| "py_str L (VFloat x) = Inr (float_repr L x)"
| "py_str L (VStr s) = Inr s"

subsection \<open>Predicates on values\<close>

text \<open>\<^verbatim>\<open>pd.isna\<close> on a scalar.\<close>

fun pd_isna :: "pyval \<Rightarrow> bool" where
  "pd_isna VNone = True"
| "pd_isna VNA = True"
| "pd_isna (VFloat FNaN) = True"
| "pd_isna v = False"

text \<open>
  \<^verbatim>\<open>value == ''\<close>, in the code always to the right of \<^verbatim>\<open>pd.isna(value) or\<close>, so never
  evaluated on \<^verbatim>\<open>pd.NA\<close>.
\<close>

fun is_empty_str :: "pyval \<Rightarrow> bool" where
  "is_empty_str (VStr s) = (s = [])"
| "is_empty_str v = False"

text \<open>
  \<^verbatim>\<open>bool(value)\<close>, as \<^verbatim>\<open>or\<close> tests it. NaN is not zero, so it is true; the truth value of
  \<^verbatim>\<open>pd.NA\<close> is ambiguous and asking for it raises TypeError.
\<close>

fun py_truthy :: "pyval \<Rightarrow> pyexn + bool" where
  "py_truthy VNone = Inr False"
| "py_truthy VNA = Inl TypeError"
| "py_truthy (VBool b) = Inr b"
| "py_truthy (VInt n) = Inr (n \<noteq> 0)"
| "py_truthy (VFloat (FFin r)) = Inr (r \<noteq> 0)"
| "py_truthy (VFloat FNegZero) = Inr False"
| "py_truthy (VFloat x) = Inr True"
| "py_truthy (VStr s) = Inr (s \<noteq> [])"

text \<open>\<^verbatim>\<open>a or b\<close>: \<open>b\<close> is evaluated only when \<open>a\<close> is false.\<close>

definition py_or :: "pyval \<Rightarrow> pyexn + pyval \<Rightarrow> pyexn + pyval" where
  "py_or a b = bind_exn (py_truthy a) (\<lambda>t. if t then Inr a else b)"

text \<open>\<^verbatim>\<open>str.strip()\<close>: the whitespace code points below 256.\<close>

definition py_isspace :: "char \<Rightarrow> bool" where
  "py_isspace c = (of_char c \<in> {9, 10, 11, 12, 13, 28, 29, 30, 31, 32, 133, 160 :: nat})"

definition py_strip :: "string \<Rightarrow> string" where
  "py_strip s = rev (dropWhile py_isspace (rev (dropWhile py_isspace s)))"

section \<open>ValidationRules\<close>

type_synonym verdict = "bool \<times> string option"

definition PRICE_MIN :: int where "PRICE_MIN = 0"
definition PRICE_MAX :: int where "PRICE_MAX = 10000"
definition QUANTITY_MIN :: int where "QUANTITY_MIN = 1"
definition QUANTITY_MAX :: int where "QUANTITY_MAX = 100"

definition VALID_CITIES :: "string set" where
  "VALID_CITIES = {''Dubai'', ''Abu Dhabi'', ''Sharjah''}"

definition VALID_CHANNELS :: "string set" where
  "VALID_CHANNELS = {''App'', ''Web'', ''Marketplace''}"

definition VALID_PAYMENT_STATUS :: "string set" where
  "VALID_PAYMENT_STATUS = {''Paid'', ''Failed'', ''Refunded''}"

text \<open>
  \<^verbatim>\<open>TIMESTAMP_PATTERN\<close>, \<^verbatim>\<open>^\d{4}-\d{2}-\d{2} \d{2}:\d{2}:\d{2}$\<close>, as a template in which
  \<^verbatim>\<open>d\<close> stands for a digit; \<^verbatim>\<open>$\<close> also matches before a final newline.
\<close>

definition TIMESTAMP_PATTERN :: string where
  "TIMESTAMP_PATTERN = ''dddd-dd-dd dd:dd:dd''"

definition pattern_char :: "char \<Rightarrow> char \<Rightarrow> bool" where
  "pattern_char p c = (if p = CHR ''d'' then c \<in> set ''0123456789'' else c = p)"

definition re_match :: "string \<Rightarrow> string \<Rightarrow> bool" where
  "re_match pat s =
     (list_all2 pattern_char pat s \<or>
      (s \<noteq> [] \<and> last s = CHR 0x0A \<and> list_all2 pattern_char pat (butlast s)))"

text \<open>
  \<^verbatim>\<open>return False, f"<prefix>{...}"\<close>: the f-string is built first, and the return raises
  what building it raises.
\<close>

definition reject :: "string \<Rightarrow> pyexn + string \<Rightarrow> pyexn + verdict" where
  "reject prefix rendered = bind_exn rendered (\<lambda>t. Inr (False, Some (prefix @ t)))"

text \<open>
  \<^verbatim>\<open>f"Outside range [{lo}, {hi}]: {x}"\<close> for two integer bounds and a value already rendered.
\<close>

definition outside_range :: "pylib \<Rightarrow> int \<Rightarrow> int \<Rightarrow> pyexn + string \<Rightarrow> pyexn + verdict" where
  "outside_range L lo hi rendered =
     bind_exn (py_int_str L lo) (\<lambda>a.
     bind_exn (py_int_str L hi) (\<lambda>b.
     reject (''Outside range ['' @ a @ '', '' @ b @ '']: '') rendered))"

definition validate_timestamp :: "pylib \<Rightarrow> pyval \<Rightarrow> pyexn + verdict" where
  "validate_timestamp L v =
     (if pd_isna v \<or> is_empty_str v then Inr (False, Some ''Missing timestamp'')
      else try_except
        (bind_exn (py_str L v) (\<lambda>s.
           if \<not> re_match TIMESTAMP_PATTERN s then reject ''Invalid format: '' (py_str L v)
           else if to_datetime_ok L v then Inr (True, None) else Inl ValueError))
        (reject ''Unparsable: '' (py_str L v)))"

definition validate_price :: "pylib \<Rightarrow> pyval \<Rightarrow> pyexn + verdict" where
  "validate_price L v =
     try_except
       (bind_exn (py_float L v) (\<lambda>p.
          if f_less_int p PRICE_MIN \<or> f_greater_int p PRICE_MAX
          then outside_range L PRICE_MIN PRICE_MAX (Inr (float_repr L p))
          else Inr (True, None)))
       (reject ''Not numeric: '' (py_str L v))"

definition validate_quantity :: "pylib \<Rightarrow> pyval \<Rightarrow> pyexn + verdict" where
  "validate_quantity L v =
     try_except
       (bind_exn (py_float L v) (\<lambda>x.
        bind_exn (int_of_float x) (\<lambda>q.
          if q < QUANTITY_MIN \<or> q > QUANTITY_MAX
          then outside_range L QUANTITY_MIN QUANTITY_MAX (py_int_str L q)
          else Inr (True, None))))
       (reject ''Not numeric: '' (py_str L v))"

definition validate_city :: "pylib \<Rightarrow> pyval \<Rightarrow> pyexn + verdict" where
  "validate_city L v =
     (if pd_isna v \<or> is_empty_str v then Inr (False, Some ''Missing city'')
      else bind_exn (py_str L v) (\<lambda>s.
        let city = py_strip s in
        if city \<notin> VALID_CITIES then Inr (False, Some (''Invalid city: '' @ city))
        else Inr (True, None)))"

definition validate_channel :: "pylib \<Rightarrow> pyval \<Rightarrow> pyexn + verdict" where
  "validate_channel L v =
     (if pd_isna v \<or> is_empty_str v then Inr (False, Some ''Missing channel'')
      else bind_exn (py_str L v) (\<lambda>s.
        let channel = py_strip s in
        if channel \<notin> VALID_CHANNELS then Inr (False, Some (''Invalid channel: '' @ channel))
        else Inr (True, None)))"

definition validate_payment_status :: "pylib \<Rightarrow> pyval \<Rightarrow> pyexn + verdict" where
  "validate_payment_status L v =
     (if pd_isna v \<or> is_empty_str v then Inr (False, Some ''Missing payment_status'')
      else bind_exn (py_str L v) (\<lambda>s.
        let status = py_strip s in
        if status \<notin> VALID_PAYMENT_STATUS then Inr (False, Some (''Invalid status: '' @ status))
        else Inr (True, None)))"

definition validate_cost_constraint :: "pylib \<Rightarrow> pyval \<Rightarrow> pyval \<Rightarrow> pyexn + verdict" where
  "validate_cost_constraint L cost price =
     try_except
       (case py_float L cost of
          Inl e \<Rightarrow> Inl e
        | Inr c \<Rightarrow>
            (case py_float L price of
               Inl e \<Rightarrow> Inl e
             | Inr p \<Rightarrow>
                 if f_less p c
                 then Inr (False, Some (''Cost '' @ float_repr L c @ '' > Price '' @ float_repr L p))
                 else Inr (True, None)))
       (Inr (True, None))"

definition validate_stock :: "pylib \<Rightarrow> pyval \<Rightarrow> pyexn + verdict" where
  "validate_stock L v =
     try_except
       (bind_exn (py_float L v) (\<lambda>s.
          if f_less_int s 0 then Inr (False, Some (''Negative stock: '' @ float_repr L s))
          else Inr (True, None)))
       (reject ''Not numeric: '' (py_str L v))"

section \<open>DataValidator\<close>

text \<open>
  A record is the dictionary of one row: a finite map from column names to cells.
  \<open>record k = None\<close> is \<^verbatim>\<open>k not in record\<close>; \<^verbatim>\<open>record.get(k)\<close> reads an absent key
  as \<^verbatim>\<open>None\<close>.
\<close>

type_synonym pyrecord = "string \<rightharpoonup> pyval"

definition dict_get :: "pyrecord \<Rightarrow> string \<Rightarrow> pyval" where
  "dict_get record k = (case record k of None \<Rightarrow> VNone | Some v \<Rightarrow> v)"

record rec_issue =
  issue_type :: string
  issue_detail :: "string option"
  action_taken :: string

record issue = rec_issue +
  record_identifier :: pyval

text \<open>
  \<^verbatim>\<open>valid, msg = rule(...)\<close> followed by \<^verbatim>\<open>if not valid: issues.append({...})\<close>.
\<close>

definition emit :: "rec_issue list \<Rightarrow> pyexn + verdict \<Rightarrow> string \<Rightarrow> string \<Rightarrow> pyexn + rec_issue list" where
  "emit issues' res ty act =
     (case res of
        Inl e \<Rightarrow> Inl e
      | Inr (valid, msg) \<Rightarrow>
          Inr (if \<not> valid
               then issues' @ [\<lparr>issue_type = ty, issue_detail = msg, action_taken = act\<rparr>]
               else issues'))"

text \<open>The validator object: \<^verbatim>\<open>self.issues\<close>, empty after \<^verbatim>\<open>__init__\<close>. Every method
  receives it as \<^verbatim>\<open>self\<close>.\<close>

record validator =
  issues :: "issue list"

definition init_validator :: validator where
  "init_validator = \<lparr>issues = []\<rparr>"

text \<open>The blocks of \<^verbatim>\<open>validate_sales_record\<close>, in the order of the source.\<close>

definition check_order_time :: "pylib \<Rightarrow> pyrecord \<Rightarrow> rec_issue list \<Rightarrow> pyexn + rec_issue list" where
  "check_order_time L record issues' =
     (case record ''order_time'' of
        None \<Rightarrow> Inr issues'
      | Some v \<Rightarrow> emit issues' (validate_timestamp L v) ''INVALID_TIMESTAMP'' ''DROP'')"

definition check_selling_price :: "pylib \<Rightarrow> pyrecord \<Rightarrow> rec_issue list \<Rightarrow> pyexn + rec_issue list" where
  "check_selling_price L record issues' =
     (case record ''selling_price_aed'' of
        None \<Rightarrow> Inr issues'
      | Some v \<Rightarrow> emit issues' (validate_price L v) ''OUTLIER_VALUE'' ''CAP'')"

definition check_qty :: "pylib \<Rightarrow> pyrecord \<Rightarrow> rec_issue list \<Rightarrow> pyexn + rec_issue list" where
  "check_qty L record issues' =
     (case record ''qty'' of
        None \<Rightarrow> Inr issues'
      | Some v \<Rightarrow> emit issues' (validate_quantity L v) ''OUTLIER_VALUE'' ''CAP'')"

definition check_city :: "pylib \<Rightarrow> pyrecord \<Rightarrow> rec_issue list \<Rightarrow> pyexn + rec_issue list" where
  "check_city L record issues' =
     (case record ''city'' of
        None \<Rightarrow> Inr issues'
      | Some v \<Rightarrow> emit issues' (validate_city L v) ''INVALID_CITY'' ''CORRECT'')"

definition check_channel :: "pylib \<Rightarrow> pyrecord \<Rightarrow> rec_issue list \<Rightarrow> pyexn + rec_issue list" where
  "check_channel L record issues' =
     (case record ''channel'' of
        None \<Rightarrow> Inr issues'
      | Some v \<Rightarrow> emit issues' (validate_channel L v) ''INVALID_CHANNEL'' ''CORRECT'')"

definition check_payment_status :: "pylib \<Rightarrow> pyrecord \<Rightarrow> rec_issue list \<Rightarrow> pyexn + rec_issue list" where
  "check_payment_status L record issues' =
     (case record ''payment_status'' of
        None \<Rightarrow> Inr issues'
      | Some v \<Rightarrow> emit issues' (validate_payment_status L v) ''INVALID_VALUE'' ''CORRECT'')"

definition check_cost_constraint :: "pylib \<Rightarrow> pyrecord \<Rightarrow> rec_issue list \<Rightarrow> pyexn + rec_issue list" where
  "check_cost_constraint L record issues' =
     (case record ''unit_cost_aed'' of
        None \<Rightarrow> Inr issues'
      | Some c \<Rightarrow>
          (case record ''base_price_aed'' of
             None \<Rightarrow> Inr issues'
           | Some p \<Rightarrow>
               emit issues' (validate_cost_constraint L c p) ''CONSTRAINT_VIOLATION'' ''CAP''))"

text \<open>\<^verbatim>\<open>if k not in record or pd.isna(record.get(k)): issues.append({...})\<close>.\<close>

definition check_missing :: "pyrecord \<Rightarrow> string \<Rightarrow> rec_issue list \<Rightarrow> pyexn + rec_issue list" where
  "check_missing record k issues' =
     Inr (if record k = None \<or> pd_isna (dict_get record k)
          then issues' @ [\<lparr>issue_type = ''MISSING_VALUE'', issue_detail = Some (''Missing '' @ k),
                           action_taken = ''IMPUTE''\<rparr>]
          else issues')"

definition validate_sales_record :: "pylib \<Rightarrow> validator \<Rightarrow> pyrecord \<Rightarrow> pyval \<Rightarrow> pyexn + rec_issue list" where
  "validate_sales_record L self record record_id =
     bind_exn (check_order_time L record []) (\<lambda>i1.
     bind_exn (check_selling_price L record i1) (\<lambda>i2.
     bind_exn (check_qty L record i2) (\<lambda>i3.
     bind_exn (check_city L record i3) (\<lambda>i4.
     bind_exn (check_channel L record i4) (\<lambda>i5.
     bind_exn (check_payment_status L record i5) (\<lambda>i6.
     bind_exn (check_cost_constraint L record i6) (\<lambda>i7.
     check_missing record ''discount_pct'' i7)))))))"

definition check_stock :: "pylib \<Rightarrow> pyrecord \<Rightarrow> rec_issue list \<Rightarrow> pyexn + rec_issue list" where
  "check_stock L record issues' =
     (case record ''stock_on_hand'' of
        None \<Rightarrow> Inr issues'
      | Some v \<Rightarrow> emit issues' (validate_stock L v) ''IMPOSSIBLE_VALUE'' ''CORRECT'')"

definition validate_inventory_record :: "pylib \<Rightarrow> validator \<Rightarrow> pyrecord \<Rightarrow> pyval \<Rightarrow> pyexn + rec_issue list" where
  "validate_inventory_record L self record record_id = check_stock L record []"

definition validate_products_record :: "pylib \<Rightarrow> validator \<Rightarrow> pyrecord \<Rightarrow> pyval \<Rightarrow> pyexn + rec_issue list" where
  "validate_products_record L self record record_id =
     bind_exn (check_missing record ''unit_cost_aed'' []) (\<lambda>i1.
     check_cost_constraint L record i1)"

text \<open>
  A dataset is the sequence \<^verbatim>\<open>df.iterrows()\<close> yields: index label and row, in row order.
  \<^verbatim>\<open>row.get(k)\<close> is \<^verbatim>\<open>None\<close> for a column the frame does not have.
\<close>

type_synonym dataset = "(pyval \<times> pyrecord) list"

text \<open>
  \<^verbatim>\<open>record_id = row.get('order_id') or row.get('product_id') or f'ROW_{idx}'\<close>: the chain
  asks each candidate but the last for its truth value, from the left, and stops at the
  first true one; the f-string is built only when both are false.
\<close>

definition resolve_record_id :: "pylib \<Rightarrow> pyval \<Rightarrow> pyrecord \<Rightarrow> pyexn + pyval" where
  "resolve_record_id L idx row =
     py_or (dict_get row ''order_id'')
       (py_or (dict_get row ''product_id'')
          (bind_exn (py_str L idx) (\<lambda>s. Inr (VStr (''ROW_'' @ s)))))"

text \<open>The dictionary the loop appends for one issue of a row.\<close>

definition stamp :: "pyval \<Rightarrow> rec_issue \<Rightarrow> issue" where
  "stamp record_id i =
     \<lparr>issue_type = issue_type i, issue_detail = issue_detail i, action_taken = action_taken i,
      record_identifier = record_id\<rparr>"

text \<open>The dispatch on \<^verbatim>\<open>dataset_type\<close> in the body of the loop.\<close>

definition validate_record :: "pylib \<Rightarrow> validator \<Rightarrow> string \<Rightarrow> pyrecord \<Rightarrow> pyval \<Rightarrow> pyexn + rec_issue list" where
  "validate_record L self dataset_type record record_id =
     (if dataset_type = ''sales'' then validate_sales_record L self record record_id
      else if dataset_type = ''inventory'' then validate_inventory_record L self record record_id
      else if dataset_type = ''products'' then validate_products_record L self record record_id
      else Inr [])"

fun validate_rows :: "pylib \<Rightarrow> validator \<Rightarrow> string \<Rightarrow> dataset \<Rightarrow> issue list \<Rightarrow> pyexn + issue list" where
  "validate_rows L self dataset_type [] validation_issues = Inr validation_issues"
| "validate_rows L self dataset_type ((idx, row) # rest) validation_issues =
     bind_exn (resolve_record_id L idx row) (\<lambda>record_id.
     bind_exn (validate_record L self dataset_type row record_id) (\<lambda>issues.
       validate_rows L self dataset_type rest (validation_issues @ map (stamp record_id) issues)))"

text \<open>
  \<^verbatim>\<open>validate_dataset\<close> returns the issue table and leaves it in \<^verbatim>\<open>self.issues\<close>.
\<close>

definition validate_dataset :: "pylib \<Rightarrow> validator \<Rightarrow> dataset \<Rightarrow> string \<Rightarrow> pyexn + issue list \<times> validator" where
  "validate_dataset L self df dataset_type =
     (case validate_rows L self dataset_type df [] of
        Inl e \<Rightarrow> Inl e
      | Inr validation_issues \<Rightarrow> Inr (validation_issues, self\<lparr>issues := validation_issues\<rparr>))"

section \<open>CleaningPolicies\<close>

record policy =
  action :: string
  justification :: string

definition POLICIES :: "(string \<times> policy) list" where
  "POLICIES =
     [(''INVALID_TIMESTAMP'',
         \<lparr>action = ''DROP'',
          justification = ''Corrupted timestamps cannot be inferred; data integrity > completeness''\<rparr>),
      (''OUTLIER_VALUE'',
         \<lparr>action = ''CAP'',
          justification = ''Cap at percentile bounds (95th percentile) to preserve data while fixing anomalies''\<rparr>),
      (''MISSING_VALUE'',
         \<lparr>action = ''IMPUTE'',
          justification = ''discount_pct: set to 0 (no discount); unit_cost: impute as 50% of base_price''\<rparr>),
      (''INVALID_CITY'',
         \<lparr>action = ''CORRECT'',
          justification = ''Standardize to valid city names (Dubai default); supports geospatial analysis''\<rparr>),
      (''INVALID_CHANNEL'',
         \<lparr>action = ''CORRECT'',
          justification = ''Standardize to valid channel (App default); ensures channel consistency''\<rparr>),
      (''INVALID_VALUE'',
         \<lparr>action = ''CORRECT'',
          justification = ''payment_status: default to Paid; preserves transaction data''\<rparr>),
      (''CONSTRAINT_VIOLATION'',
         \<lparr>action = ''CAP'',
          justification = ''unit_cost > base_price: cap unit_cost at base_price; maintains margin logic''\<rparr>),
      (''IMPOSSIBLE_VALUE'',
         \<lparr>action = ''CORRECT'',
          justification = ''Negative stock: set to 0; stock > 1000: cap at 500 (supply chain bounds)''\<rparr>)]"

definition default_policy :: policy where
  "default_policy = \<lparr>action = ''SKIP'', justification = ''No policy defined''\<rparr>"

definition get_policy :: "string \<Rightarrow> policy" where
  "get_policy t = (case map_of POLICIES t of None \<Rightarrow> default_policy | Some p \<Rightarrow> p)"

section \<open>Specification vocabulary\<close>

text \<open>
  The issues one rule contributes: none when the rule accepts, one issue when it rejects.
\<close>

definition verdict_issues :: "pyexn + verdict \<Rightarrow> string \<Rightarrow> string \<Rightarrow> rec_issue list" where
  "verdict_issues res ty act =
     (case res of
        Inl e \<Rightarrow> []
      | Inr (valid, msg) \<Rightarrow>
          if valid then [] else [\<lparr>issue_type = ty, issue_detail = msg, action_taken = act\<rparr>])"

definition field_issues ::
  "(pyval \<Rightarrow> pyexn + verdict) \<Rightarrow> pyrecord \<Rightarrow> string \<Rightarrow> string \<Rightarrow> string \<Rightarrow> rec_issue list" where
  "field_issues rule record k ty act =
     (case record k of None \<Rightarrow> [] | Some v \<Rightarrow> verdict_issues (rule v) ty act)"

definition cost_issues :: "pylib \<Rightarrow> pyrecord \<Rightarrow> rec_issue list" where
  "cost_issues L record =
     (case record ''unit_cost_aed'' of
        None \<Rightarrow> []
      | Some c \<Rightarrow>
          (case record ''base_price_aed'' of
             None \<Rightarrow> []
           | Some p \<Rightarrow> verdict_issues (validate_cost_constraint L c p) ''CONSTRAINT_VIOLATION'' ''CAP''))"

definition missing_issues :: "pyrecord \<Rightarrow> string \<Rightarrow> rec_issue list" where
  "missing_issues record k =
     (if record k = None \<or> pd_isna (dict_get record k)
      then [\<lparr>issue_type = ''MISSING_VALUE'', issue_detail = Some (''Missing '' @ k),
              action_taken = ''IMPUTE''\<rparr>]
      else [])"

definition sales_issues :: "pylib \<Rightarrow> pyrecord \<Rightarrow> rec_issue list" where
  "sales_issues L record =
     field_issues (validate_timestamp L) record ''order_time'' ''INVALID_TIMESTAMP'' ''DROP'' @
     field_issues (validate_price L) record ''selling_price_aed'' ''OUTLIER_VALUE'' ''CAP'' @
     field_issues (validate_quantity L) record ''qty'' ''OUTLIER_VALUE'' ''CAP'' @
     field_issues (validate_city L) record ''city'' ''INVALID_CITY'' ''CORRECT'' @
     field_issues (validate_channel L) record ''channel'' ''INVALID_CHANNEL'' ''CORRECT'' @
     field_issues (validate_payment_status L) record ''payment_status'' ''INVALID_VALUE'' ''CORRECT'' @
     cost_issues L record @
     missing_issues record ''discount_pct''"

definition record_issues :: "pylib \<Rightarrow> string \<Rightarrow> pyrecord \<Rightarrow> rec_issue list" where
  "record_issues L dataset_type record =
     (if dataset_type = ''sales'' then sales_issues L record
      else if dataset_type = ''inventory''
        then field_issues (validate_stock L) record ''stock_on_hand'' ''IMPOSSIBLE_VALUE'' ''CORRECT''
      else if dataset_type = ''products''
        then missing_issues record ''unit_cost_aed'' @ cost_issues L record
      else [])"

text \<open>
  The identifier as the specification words it: the first candidate that is not missing
  (\<^verbatim>\<open>pd.isna\<close>, which an absent column also is), else \<^verbatim>\<open>ROW_<index>\<close>.
\<close>

definition spec_record_id :: "pylib \<Rightarrow> pyval \<Rightarrow> pyrecord \<Rightarrow> pyexn + pyval" where
  "spec_record_id L idx row =
     (if \<not> pd_isna (dict_get row ''order_id'') then Inr (dict_get row ''order_id'')
      else if \<not> pd_isna (dict_get row ''product_id'') then Inr (dict_get row ''product_id'')
      else bind_exn (py_str L idx) (\<lambda>s. Inr (VStr (''ROW_'' @ s))))"

text \<open>A float that is a number between two integer bounds, both included.\<close>

fun within_bounds :: "int \<Rightarrow> int \<Rightarrow> pyfloat \<Rightarrow> bool" where
  "within_bounds lo hi (FFin r) = (of_int lo \<le> r \<and> r \<le> of_int hi)"
| "within_bounds lo hi FNegZero = (lo \<le> 0 \<and> 0 \<le> hi)"
| "within_bounds lo hi x = False"

text \<open>Type and action of each issue of a result; \<open>None\<close> for a pass that raised.\<close>

definition kinds :: "pyexn + rec_issue list \<Rightarrow> (string \<times> string) list option" where
  "kinds res =
     (case res of Inl e \<Rightarrow> None | Inr xs \<Rightarrow> Some (map (\<lambda>i. (issue_type i, action_taken i)) xs))"

text \<open>The record of end-to-end scenario B.\<close>

definition scenario_B :: pyrecord where
  "scenario_B = [''selling_price_aed'' \<mapsto> VInt 15000, ''qty'' \<mapsto> VInt 3, ''city'' \<mapsto> VStr ''Dubayy'']"

text \<open>The issues of one row, stamped with the identifier resolved for it.\<close>

definition row_out :: "pylib \<Rightarrow> string \<Rightarrow> pyval \<times> pyrecord \<Rightarrow> issue list" where
  "row_out L k =
     (\<lambda>(idx, row). case resolve_record_id L idx row of
                      Inl e \<Rightarrow> []
                    | Inr record_id \<Rightarrow> map (stamp record_id) (record_issues L k row))"

text \<open>A value that \<^verbatim>\<open>str\<close> renders, and a result that is a return.\<close>

definition printable :: "pylib \<Rightarrow> pyval \<Rightarrow> bool" where
  "printable L v = (case py_str L v of Inl e \<Rightarrow> False | Inr s \<Rightarrow> True)"

definition returns :: "pyexn + 'a \<Rightarrow> bool" where
  "returns res = (case res of Inl e \<Rightarrow> False | Inr r \<Rightarrow> True)"

text \<open>
  A row whose identifier resolves and whose cells under the fields that the rules render
  are printable, where the row has them.
\<close>

definition rendered_fields :: "string list" where
  "rendered_fields = [''order_time'', ''selling_price_aed'', ''qty'', ''city'', ''channel'',
                      ''payment_status'', ''stock_on_hand'']"

definition row_ok :: "pylib \<Rightarrow> pyval \<times> pyrecord \<Rightarrow> bool" where
  "row_ok L = (\<lambda>(idx, row).
     returns (resolve_record_id L idx row) \<and>
     list_all (\<lambda>k. case row k of None \<Rightarrow> True | Some v \<Rightarrow> printable L v) rendered_fields)"

text \<open>An issue with a diagnostic.\<close>

definition mk_issue :: "string \<Rightarrow> string \<Rightarrow> string \<Rightarrow> rec_issue" where
  "mk_issue ty detail act = \<lparr>issue_type = ty, issue_detail = Some detail, action_taken = act\<rparr>"

text \<open>The pairs of issue type and action that the record validators write.\<close>

definition emitted :: "(string \<times> string) set" where
  "emitted = {(''INVALID_TIMESTAMP'', ''DROP''), (''OUTLIER_VALUE'', ''CAP''),
              (''INVALID_CITY'', ''CORRECT''), (''INVALID_CHANNEL'', ''CORRECT''),
              (''INVALID_VALUE'', ''CORRECT''), (''CONSTRAINT_VIOLATION'', ''CAP''),
              (''MISSING_VALUE'', ''IMPUTE''), (''IMPOSSIBLE_VALUE'', ''CORRECT'')}"

text \<open>What \<^verbatim>\<open>validate_dataset\<close> returns, and the identifiers of the issues in it.\<close>

definition returned :: "pyexn + issue list \<times> validator \<Rightarrow> issue list option" where
  "returned res = (case res of Inl e \<Rightarrow> None | Inr (out, self) \<Rightarrow> Some out)"

definition identifiers :: "pyexn + issue list \<times> validator \<Rightarrow> pyval list option" where
  "identifiers res = map_option (map record_identifier) (returned res)"

text \<open>Example records.\<close>

definition null_fields :: pyrecord where
  "null_fields = [''order_time'' \<mapsto> VNone, ''city'' \<mapsto> VFloat FNaN, ''channel'' \<mapsto> VNone,
                  ''payment_status'' \<mapsto> VFloat FNaN]"

definition nan_order :: pyrecord where
  "nan_order = [''order_id'' \<mapsto> VFloat FNaN, ''product_id'' \<mapsto> VStr ''P0001'']"

definition na_order :: pyrecord where
  "na_order = [''order_id'' \<mapsto> VNA, ''product_id'' \<mapsto> VStr ''P0001'']"

section \<open>Unfolding rules and basic facts\<close>

lemmas rule_defs = validate_timestamp_def validate_price_def validate_quantity_def validate_city_def
  validate_channel_def validate_payment_status_def validate_cost_constraint_def validate_stock_def
  reject_def outside_range_def

lemmas num_defs = try_except_def bind_exn_def f_less_int_def f_greater_int_def float_of_int_def
  float_repr_def py_int_str_def int_str_def digits_str.simps digit_char_def PRICE_MIN_def
  PRICE_MAX_def QUANTITY_MIN_def QUANTITY_MAX_def

lemmas str_defs = VALID_CITIES_def VALID_CHANNELS_def VALID_PAYMENT_STATUS_def py_strip_def
  py_isspace_def

lemmas check_defs = emit_def check_order_time_def check_selling_price_def
  check_qty_def check_city_def check_channel_def check_payment_status_def
  check_cost_constraint_def check_missing_def check_stock_def dict_get_def

subsection \<open>What a returned result holds\<close>

lemma bind_exn_Inr:
  "bind_exn m f = Inr y \<longleftrightarrow> (\<exists>x. m = Inr x \<and> f x = Inr y)"
  by (cases m) (simp_all add: bind_exn_def)

lemma emit_result:
  assumes "emit xs res ty act = Inr ys"
  shows "ys = xs @ verdict_issues res ty act"
  using assms by (auto simp: emit_def verdict_issues_def split: sum.splits)

lemma check_order_time_result:
  assumes "check_order_time L record xs = Inr ys"
  shows "ys = xs @ field_issues (validate_timestamp L) record ''order_time'' ''INVALID_TIMESTAMP'' ''DROP''"
  using assms
  by (auto simp: check_order_time_def field_issues_def dest: emit_result split: option.splits)

lemma check_selling_price_result:
  assumes "check_selling_price L record xs = Inr ys"
  shows "ys = xs @ field_issues (validate_price L) record ''selling_price_aed'' ''OUTLIER_VALUE'' ''CAP''"
  using assms
  by (auto simp: check_selling_price_def field_issues_def dest: emit_result split: option.splits)

lemma check_qty_result:
  assumes "check_qty L record xs = Inr ys"
  shows "ys = xs @ field_issues (validate_quantity L) record ''qty'' ''OUTLIER_VALUE'' ''CAP''"
  using assms
  by (auto simp: check_qty_def field_issues_def dest: emit_result split: option.splits)

lemma check_city_result:
  assumes "check_city L record xs = Inr ys"
  shows "ys = xs @ field_issues (validate_city L) record ''city'' ''INVALID_CITY'' ''CORRECT''"
  using assms
  by (auto simp: check_city_def field_issues_def dest: emit_result split: option.splits)

lemma check_channel_result:
  assumes "check_channel L record xs = Inr ys"
  shows "ys = xs @ field_issues (validate_channel L) record ''channel'' ''INVALID_CHANNEL'' ''CORRECT''"
  using assms
  by (auto simp: check_channel_def field_issues_def dest: emit_result split: option.splits)

lemma check_payment_status_result:
  assumes "check_payment_status L record xs = Inr ys"
  shows "ys = xs @ field_issues (validate_payment_status L) record ''payment_status''
                     ''INVALID_VALUE'' ''CORRECT''"
  using assms
  by (auto simp: check_payment_status_def field_issues_def dest: emit_result split: option.splits)

lemma check_cost_constraint_result:
  assumes "check_cost_constraint L record xs = Inr ys"
  shows "ys = xs @ cost_issues L record"
  using assms
  by (auto simp: check_cost_constraint_def cost_issues_def dest: emit_result split: option.splits)

lemma check_missing_result:
  "check_missing record k xs = Inr (xs @ missing_issues record k)"
  by (simp add: check_missing_def missing_issues_def)

lemma check_stock_result:
  assumes "check_stock L record xs = Inr ys"
  shows "ys = xs @ field_issues (validate_stock L) record ''stock_on_hand'' ''IMPOSSIBLE_VALUE'' ''CORRECT''"
  using assms
  by (auto simp: check_stock_def field_issues_def dest: emit_result split: option.splits)

lemma validate_sales_record_result:
  assumes "validate_sales_record L self record rid = Inr xs"
  shows "xs = sales_issues L record"
proof -
  from assms obtain i1 i2 i3 i4 i5 i6 i7 where
    c1: "check_order_time L record [] = Inr i1" and c2: "check_selling_price L record i1 = Inr i2"
    and c3: "check_qty L record i2 = Inr i3" and c4: "check_city L record i3 = Inr i4"
    and c5: "check_channel L record i4 = Inr i5" and c6: "check_payment_status L record i5 = Inr i6"
    and c7: "check_cost_constraint L record i6 = Inr i7"
    and c8: "check_missing record ''discount_pct'' i7 = Inr xs"
    unfolding validate_sales_record_def bind_exn_Inr by blast
  from c8 have "xs = i7 @ missing_issues record ''discount_pct''"
    by (simp add: check_missing_result)
  then show ?thesis
    unfolding sales_issues_def
    using check_order_time_result [OF c1] check_selling_price_result [OF c2]
      check_qty_result [OF c3] check_city_result [OF c4] check_channel_result [OF c5]
      check_payment_status_result [OF c6] check_cost_constraint_result [OF c7]
    by simp
qed

lemma validate_record_result:
  assumes "validate_record L self k record rid = Inr xs"
  shows "xs = record_issues L k record"
proof -
  consider "k = ''sales''" | "k \<noteq> ''sales''" "k = ''inventory''"
    | "k \<noteq> ''sales''" "k \<noteq> ''inventory''" "k = ''products''"
    | "k \<noteq> ''sales''" "k \<noteq> ''inventory''" "k \<noteq> ''products''"
    by blast
  then show ?thesis
  proof cases
    case 1
    with assms show ?thesis
      by (simp add: validate_record_def record_issues_def validate_sales_record_result)
  next
    case 2
    with assms have "check_stock L record [] = Inr xs"
      by (simp add: validate_record_def validate_inventory_record_def)
    from check_stock_result [OF this] 2 show ?thesis
      by (simp add: record_issues_def)
  next
    case 3
    with assms have "check_cost_constraint L record (missing_issues record ''unit_cost_aed'') = Inr xs"
      by (simp add: validate_record_def validate_products_record_def bind_exn_def
            check_missing_result)
    from check_cost_constraint_result [OF this] 3 show ?thesis
      by (simp add: record_issues_def)
  next
    case 4
    with assms show ?thesis
      by (simp add: validate_record_def record_issues_def)
  qed
qed

subsection \<open>The loop over the rows\<close>

lemma validate_rows_result:
  assumes "validate_rows L self k df acc = Inr out"
  shows "out = acc @ concat (map (row_out L k) df)"
  using assms
proof (induction df arbitrary: acc)
  case Nil
  then show ?case by simp
next
  case (Cons x df)
  obtain idx row where x: "x = (idx, row)" by (cases x)
  from Cons.prems obtain rid xs where rid: "resolve_record_id L idx row = Inr rid"
    and xs: "validate_record L self k row rid = Inr xs"
    and rest: "validate_rows L self k df (acc @ map (stamp rid) xs) = Inr out"
    unfolding x validate_rows.simps bind_exn_Inr by blast
  from xs have "xs = record_issues L k row"
    by (rule validate_record_result)
  with rid Cons.IH [OF rest] show ?case
    by (simp add: x row_out_def)
qed

lemma validate_dataset_result:
  assumes "validate_dataset L self df k = Inr (out, self')"
  shows "out = concat (map (row_out L k) df)" and "self' = self\<lparr>issues := out\<rparr>"
  using assms validate_rows_result [of L self k df "[]"]
  by (auto simp: validate_dataset_def split: sum.splits)

section \<open>Claims\<close>

subsection \<open>Scenario B\<close>

lemma scenario_B_issues:
  "validate_sales_record L self scenario_B rid =
     Inr [\<lparr>issue_type = ''OUTLIER_VALUE'',
            issue_detail = Some ''Outside range [0, 10000]: 15000.0'', action_taken = ''CAP''\<rparr>,
          \<lparr>issue_type = ''INVALID_CITY'',
            issue_detail = Some ''Invalid city: Dubayy'', action_taken = ''CORRECT''\<rparr>,
          \<lparr>issue_type = ''MISSING_VALUE'',
            issue_detail = Some ''Missing discount_pct'', action_taken = ''IMPUTE''\<rparr>]"
  by (simp add: validate_sales_record_def scenario_B_def check_defs rule_defs num_defs str_defs)

text \<open>
  C1, as the code has it. The sales record with exactly \<^verbatim>\<open>selling_price_aed = 15000\<close>,
  \<^verbatim>\<open>qty = 3\<close> and \<^verbatim>\<open>city = "Dubayy"\<close> yields three issues, in this order: OUTLIER_VALUE
  with action CAP for the price, INVALID_CITY with action CORRECT, and MISSING_VALUE with
  action IMPUTE, because \<^verbatim>\<open>discount_pct\<close> is absent. The channel and payment status blocks
  leave the issue list as it is: their fields are absent.
\<close>

theorem C1_scenario_B_three_issues:
  "validate_sales_record L self scenario_B rid =
     Inr [\<lparr>issue_type = ''OUTLIER_VALUE'',
            issue_detail = Some ''Outside range [0, 10000]: 15000.0'', action_taken = ''CAP''\<rparr>,
          \<lparr>issue_type = ''INVALID_CITY'',
            issue_detail = Some ''Invalid city: Dubayy'', action_taken = ''CORRECT''\<rparr>,
          \<lparr>issue_type = ''MISSING_VALUE'',
            issue_detail = Some ''Missing discount_pct'', action_taken = ''IMPUTE''\<rparr>]
   \<and> check_channel L scenario_B xs = Inr xs
   \<and> check_payment_status L scenario_B xs = Inr xs"
proof -
  have "check_channel L scenario_B xs = Inr xs"
    by (simp add: check_channel_def scenario_B_def)
  moreover have "check_payment_status L scenario_B xs = Inr xs"
    by (simp add: check_payment_status_def scenario_B_def)
  ultimately show ?thesis
    using scenario_B_issues [of L self rid] by simp
qed

text \<open>
  C1 as stated fails: the types and actions of the issues are not the two the claim lists.
\<close>

theorem C1_scenario_B_counterexample:
  "kinds (validate_sales_record lib_none init_validator scenario_B (VStr ''ROW_0'')) =
     Some [(''OUTLIER_VALUE'', ''CAP''), (''INVALID_CITY'', ''CORRECT''),
           (''MISSING_VALUE'', ''IMPUTE'')]
   \<and> kinds (validate_sales_record lib_none init_validator scenario_B (VStr ''ROW_0'')) \<noteq>
     Some [(''OUTLIER_VALUE'', ''CAP''), (''INVALID_CITY'', ''CORRECT'')]"
  by (simp add: scenario_B_issues kinds_def)

subsection \<open>The policy table\<close>

lemma unknown_type_lookup:
  assumes "t \<notin> {''INVALID_TIMESTAMP'', ''OUTLIER_VALUE'', ''MISSING_VALUE'', ''INVALID_CITY'',
             ''INVALID_CHANNEL'', ''INVALID_VALUE'', ''CONSTRAINT_VIOLATION'', ''IMPOSSIBLE_VALUE''}"
  shows "map_of POLICIES t = None"
  using assms by (simp add: POLICIES_def)

lemma known_type_lookup:
  assumes "t \<in> fst ` set POLICIES"
  shows "(t, get_policy t) \<in> set POLICIES"
proof -
  from assms have "map_of POLICIES t \<noteq> None"
    by (simp add: map_of_eq_None_iff)
  then obtain p where p: "map_of POLICIES t = Some p"
    by auto
  then have "get_policy t = p"
    by (simp add: get_policy_def)
  with p show ?thesis
    by (simp add: map_of_SomeD)
qed

lemma known_type_actions:
  "action (get_policy ''INVALID_TIMESTAMP'') = ''DROP''"
  "action (get_policy ''OUTLIER_VALUE'') = ''CAP''"
  "action (get_policy ''MISSING_VALUE'') = ''IMPUTE''"
  "action (get_policy ''INVALID_CITY'') = ''CORRECT''"
  "action (get_policy ''INVALID_CHANNEL'') = ''CORRECT''"
  "action (get_policy ''INVALID_VALUE'') = ''CORRECT''"
  "action (get_policy ''CONSTRAINT_VIOLATION'') = ''CAP''"
  "action (get_policy ''IMPOSSIBLE_VALUE'') = ''CORRECT''"
  by (simp_all add: get_policy_def POLICIES_def)

text \<open>
  C3. \<^verbatim>\<open>get_policy\<close> is a total lookup. Each of the eight known categories has the action
  the table gives it, a type of the table gets its entry of the table, and every other
  type gets the default: action SKIP, justification "No policy defined".
\<close>

theorem C3_get_policy:
  "action (get_policy ''INVALID_TIMESTAMP'') = ''DROP''
   \<and> action (get_policy ''OUTLIER_VALUE'') = ''CAP''
   \<and> action (get_policy ''MISSING_VALUE'') = ''IMPUTE''
   \<and> action (get_policy ''INVALID_CITY'') = ''CORRECT''
   \<and> action (get_policy ''INVALID_CHANNEL'') = ''CORRECT''
   \<and> action (get_policy ''INVALID_VALUE'') = ''CORRECT''
   \<and> action (get_policy ''CONSTRAINT_VIOLATION'') = ''CAP''
   \<and> action (get_policy ''IMPOSSIBLE_VALUE'') = ''CORRECT''
   \<and> (t \<in> fst ` set POLICIES \<longrightarrow> (t, get_policy t) \<in> set POLICIES)
   \<and> (t \<notin> {''INVALID_TIMESTAMP'', ''OUTLIER_VALUE'', ''MISSING_VALUE'', ''INVALID_CITY'',
             ''INVALID_CHANNEL'', ''INVALID_VALUE'', ''CONSTRAINT_VIOLATION'', ''IMPOSSIBLE_VALUE''}
        \<longrightarrow> get_policy t = \<lparr>action = ''SKIP'', justification = ''No policy defined''\<rparr>)"
proof (intro conjI impI)
  assume "t \<in> fst ` set POLICIES"
  then show "(t, get_policy t) \<in> set POLICIES"
    by (rule known_type_lookup)
next
  assume "t \<notin> {''INVALID_TIMESTAMP'', ''OUTLIER_VALUE'', ''MISSING_VALUE'', ''INVALID_CITY'',
             ''INVALID_CHANNEL'', ''INVALID_VALUE'', ''CONSTRAINT_VIOLATION'', ''IMPOSSIBLE_VALUE''}"
  then have "map_of POLICIES t = None"
    by (rule unknown_type_lookup)
  then show "get_policy t = \<lparr>action = ''SKIP'', justification = ''No policy defined''\<rparr>"
    by (simp add: get_policy_def default_policy_def)
qed (rule known_type_actions)+

text \<open>An unknown type and a known one.\<close>

theorem C3_get_policy_witness:
  "get_policy ''DUPLICATE'' = \<lparr>action = ''SKIP'', justification = ''No policy defined''\<rparr>
   \<and> (''OUTLIER_VALUE'', get_policy ''OUTLIER_VALUE'') \<in> set POLICIES"
proof -
  have a: "''DUPLICATE'' \<notin> {''INVALID_TIMESTAMP'', ''OUTLIER_VALUE'', ''MISSING_VALUE'', ''INVALID_CITY'',
             ''INVALID_CHANNEL'', ''INVALID_VALUE'', ''CONSTRAINT_VIOLATION'', ''IMPOSSIBLE_VALUE''}"
    by simp
  have b: "''OUTLIER_VALUE'' \<in> fst ` set POLICIES"
    by (simp add: POLICIES_def)
  have u: "get_policy ''DUPLICATE'' = \<lparr>action = ''SKIP'', justification = ''No policy defined''\<rparr>"
    using a C3_get_policy [of "''DUPLICATE''"] by (elim conjE) (erule mp)
  have k: "(''OUTLIER_VALUE'', get_policy ''OUTLIER_VALUE'') \<in> set POLICIES"
    using b C3_get_policy [of "''OUTLIER_VALUE''"] by (elim conjE) (erule mp)
  from u k show ?thesis by (rule conjI)
qed

subsection \<open>The cost constraint\<close>

text \<open>
  C6, as the code has it. When \<^verbatim>\<open>float\<close> raises on the cost or on the price, the rule
  accepts. Otherwise it rejects if and only if the cost is greater than the price, and the
  diagnostic is "Cost c > Price p" with both rendered as floats: (60, 50) gives
  "Cost 60.0 > Price 50.0".
\<close>

theorem C6_cost_constraint:
  "(py_float L cost = Inl e \<or> py_float L price = Inl e' \<longrightarrow>
      validate_cost_constraint L cost price = Inr (True, None))
   \<and> (py_float L cost = Inr c \<and> py_float L price = Inr p \<longrightarrow>
      validate_cost_constraint L cost price =
        (if f_less p c
         then Inr (False, Some (''Cost '' @ float_repr L c @ '' > Price '' @ float_repr L p))
         else Inr (True, None)))
   \<and> (py_float L cost = Inr (FFin a) \<and> py_float L price = Inr (FFin b) \<longrightarrow>
      (validate_cost_constraint L cost price = Inr (True, None) \<longleftrightarrow> a \<le> b))"
proof (intro conjI impI)
  assume "py_float L cost = Inl e \<or> py_float L price = Inl e'"
  then show "validate_cost_constraint L cost price = Inr (True, None)"
    by (auto simp: validate_cost_constraint_def try_except_def split: sum.splits)
next
  assume "py_float L cost = Inr c \<and> py_float L price = Inr p"
  then show "validate_cost_constraint L cost price =
        (if f_less p c
         then Inr (False, Some (''Cost '' @ float_repr L c @ '' > Price '' @ float_repr L p))
         else Inr (True, None))"
    by (simp add: validate_cost_constraint_def try_except_def)
next
  assume "py_float L cost = Inr (FFin a) \<and> py_float L price = Inr (FFin b)"
  then show "validate_cost_constraint L cost price = Inr (True, None) \<longleftrightarrow> a \<le> b"
    by (auto simp: validate_cost_constraint_def try_except_def)
qed

text \<open>The three examples of the specification.\<close>

theorem C6_cost_constraint_witness:
  "validate_cost_constraint lib_none (VInt 60) (VInt 50) = Inr (False, Some ''Cost 60.0 > Price 50.0'')
   \<and> validate_cost_constraint lib_none (VInt 40) (VInt 50) = Inr (True, None)
   \<and> validate_cost_constraint lib_none VNone (VInt 50) = Inr (True, None)"
proof -
  have f: "py_float lib_none (VInt 60) = Inr (FFin 60)" "py_float lib_none (VInt 50) = Inr (FFin 50)"
    "py_float lib_none (VInt 40) = Inr (FFin 40)" "py_float lib_none VNone = Inl TypeError"
    by (simp_all add: float_of_int_def)
  from f C6_cost_constraint [of lib_none "VInt 60" _ "VInt 50" _ "FFin 60" "FFin 50"]
  have 1: "validate_cost_constraint lib_none (VInt 60) (VInt 50) = Inr (False, Some ''Cost 60.0 > Price 50.0'')"
    by (simp add: float_repr_def int_str_def digits_str.simps digit_char_def)
  from f C6_cost_constraint [of lib_none "VInt 40" _ "VInt 50" _ _ _ 40 50]
  have 2: "validate_cost_constraint lib_none (VInt 40) (VInt 50) = Inr (True, None)"
    by simp
  from f C6_cost_constraint [of lib_none VNone TypeError "VInt 50"]
  have 3: "validate_cost_constraint lib_none VNone (VInt 50) = Inr (True, None)"
    by simp
  from 1 2 3 show ?thesis by simp
qed

text \<open>C6 as stated fails on its example: the diagnostic is not "Cost 60 > Price 50".\<close>

theorem C6_cost_constraint_counterexample:
  "validate_cost_constraint lib_none (VInt 60) (VInt 50) \<noteq> Inr (False, Some ''Cost 60 > Price 50'')"
  by (simp add: validate_cost_constraint_def try_except_def float_of_int_def float_repr_def
        int_str_def digits_str.simps digit_char_def)

subsection \<open>Issues by rule\<close>

lemma field_issues_type:
  assumes "i \<in> set (field_issues rule record k ty act)"
  shows "issue_type i = ty \<and> action_taken i = act \<and> record k \<noteq> None"
proof (cases "record k")
  case None
  with assms show ?thesis by (simp add: field_issues_def)
next
  case (Some v)
  with assms show ?thesis
    by (auto simp: field_issues_def verdict_issues_def split: sum.splits if_splits)
qed

lemma cost_issues_type:
  assumes "i \<in> set (cost_issues L record)"
  shows "issue_type i = ''CONSTRAINT_VIOLATION'' \<and> action_taken i = ''CAP''"
  using assms
  by (auto simp: cost_issues_def verdict_issues_def split: option.splits sum.splits if_splits)

lemma missing_issues_type:
  assumes "i \<in> set (missing_issues record k)"
  shows "i = mk_issue ''MISSING_VALUE'' (''Missing '' @ k) ''IMPUTE''"
  using assms by (simp add: missing_issues_def mk_issue_def split: if_splits)

lemma null_verdicts:
  assumes "pd_isna v"
  shows "validate_timestamp L v = Inr (False, Some ''Missing timestamp'')"
    and "validate_city L v = Inr (False, Some ''Missing city'')"
    and "validate_channel L v = Inr (False, Some ''Missing channel'')"
    and "validate_payment_status L v = Inr (False, Some ''Missing payment_status'')"
  using assms
  by (simp_all add: validate_timestamp_def validate_city_def validate_channel_def
        validate_payment_status_def)

lemma field_issues_rejected:
  assumes "record k = Some v" and "rule v = Inr (False, Some d)"
  shows "field_issues rule record k ty act = [mk_issue ty d act]"
  using assms by (simp add: field_issues_def verdict_issues_def mk_issue_def)

lemma sales_issues_cases:
  assumes "i \<in> set (sales_issues L record)"
  shows "i \<in> set (field_issues (validate_timestamp L) record ''order_time'' ''INVALID_TIMESTAMP'' ''DROP'')
       \<or> i \<in> set (field_issues (validate_price L) record ''selling_price_aed'' ''OUTLIER_VALUE'' ''CAP'')
       \<or> i \<in> set (field_issues (validate_quantity L) record ''qty'' ''OUTLIER_VALUE'' ''CAP'')
       \<or> i \<in> set (field_issues (validate_city L) record ''city'' ''INVALID_CITY'' ''CORRECT'')
       \<or> i \<in> set (field_issues (validate_channel L) record ''channel'' ''INVALID_CHANNEL'' ''CORRECT'')
       \<or> i \<in> set (field_issues (validate_payment_status L) record ''payment_status'' ''INVALID_VALUE'' ''CORRECT'')
       \<or> i \<in> set (cost_issues L record)
       \<or> i \<in> set (missing_issues record ''discount_pct'')"
  using assms by (simp add: sales_issues_def)

text \<open>The type of an issue names the block that emitted it.\<close>

lemma sales_issue_origin:
  assumes "i \<in> set (sales_issues L record)"
  shows "issue_type i = ''INVALID_TIMESTAMP'' \<Longrightarrow> record ''order_time'' \<noteq> None"
    and "issue_type i = ''INVALID_CITY'' \<Longrightarrow> record ''city'' \<noteq> None"
    and "issue_type i = ''INVALID_CHANNEL'' \<Longrightarrow> record ''channel'' \<noteq> None"
    and "issue_type i = ''INVALID_VALUE'' \<Longrightarrow> record ''payment_status'' \<noteq> None"
    and "issue_type i = ''MISSING_VALUE'' \<Longrightarrow> issue_detail i = Some ''Missing discount_pct''"
  using sales_issues_cases [OF assms]
  by (auto dest!: field_issues_type cost_issues_type missing_issues_type simp: mk_issue_def)

text \<open>
  C9. In a sales record, a guarded field that is present and null makes its rule fire: the
  result holds the issue of the rule's own type with the diagnostic "Missing ...". A guarded
  field that is absent leaves no issue of its type. The only MISSING_VALUE issue of a sales
  record is the one for \<^verbatim>\<open>discount_pct\<close>.
\<close>

theorem C9_null_field_fires:
  assumes "validate_sales_record L self record rid = Inr xs"
  shows "(record ''order_time'' = Some v \<and> pd_isna v \<longrightarrow>
            mk_issue ''INVALID_TIMESTAMP'' ''Missing timestamp'' ''DROP'' \<in> set xs)
       \<and> (record ''city'' = Some v \<and> pd_isna v \<longrightarrow>
            mk_issue ''INVALID_CITY'' ''Missing city'' ''CORRECT'' \<in> set xs)
       \<and> (record ''channel'' = Some v \<and> pd_isna v \<longrightarrow>
            mk_issue ''INVALID_CHANNEL'' ''Missing channel'' ''CORRECT'' \<in> set xs)
       \<and> (record ''payment_status'' = Some v \<and> pd_isna v \<longrightarrow>
            mk_issue ''INVALID_VALUE'' ''Missing payment_status'' ''CORRECT'' \<in> set xs)
       \<and> (record ''order_time'' = None \<longrightarrow> (\<forall>i \<in> set xs. issue_type i \<noteq> ''INVALID_TIMESTAMP''))
       \<and> (record ''city'' = None \<longrightarrow> (\<forall>i \<in> set xs. issue_type i \<noteq> ''INVALID_CITY''))
       \<and> (record ''channel'' = None \<longrightarrow> (\<forall>i \<in> set xs. issue_type i \<noteq> ''INVALID_CHANNEL''))
       \<and> (record ''payment_status'' = None \<longrightarrow> (\<forall>i \<in> set xs. issue_type i \<noteq> ''INVALID_VALUE''))
       \<and> (\<forall>i \<in> set xs. issue_type i = ''MISSING_VALUE'' \<longrightarrow>
             issue_detail i = Some ''Missing discount_pct'')"
proof -
  from assms have xs: "xs = sales_issues L record"
    by (rule validate_sales_record_result)
  have ts: "mk_issue ''INVALID_TIMESTAMP'' ''Missing timestamp'' ''DROP'' \<in> set xs"
    if "record ''order_time'' = Some v \<and> pd_isna v"
    using that by (simp add: xs sales_issues_def field_issues_rejected null_verdicts)
  have city: "mk_issue ''INVALID_CITY'' ''Missing city'' ''CORRECT'' \<in> set xs"
    if "record ''city'' = Some v \<and> pd_isna v"
    using that by (simp add: xs sales_issues_def field_issues_rejected null_verdicts)
  have channel: "mk_issue ''INVALID_CHANNEL'' ''Missing channel'' ''CORRECT'' \<in> set xs"
    if "record ''channel'' = Some v \<and> pd_isna v"
    using that by (simp add: xs sales_issues_def field_issues_rejected null_verdicts)
  have pay: "mk_issue ''INVALID_VALUE'' ''Missing payment_status'' ''CORRECT'' \<in> set xs"
    if "record ''payment_status'' = Some v \<and> pd_isna v"
    using that by (simp add: xs sales_issues_def field_issues_rejected null_verdicts)
  have absent: "\<forall>i \<in> set xs. issue_type i \<noteq> ''INVALID_TIMESTAMP''" if "record ''order_time'' = None"
    using that sales_issue_origin(1) unfolding xs by blast
  have absent_city: "\<forall>i \<in> set xs. issue_type i \<noteq> ''INVALID_CITY''" if "record ''city'' = None"
    using that sales_issue_origin(2) unfolding xs by blast
  have absent_channel: "\<forall>i \<in> set xs. issue_type i \<noteq> ''INVALID_CHANNEL''" if "record ''channel'' = None"
    using that sales_issue_origin(3) unfolding xs by blast
  have absent_pay: "\<forall>i \<in> set xs. issue_type i \<noteq> ''INVALID_VALUE''" if "record ''payment_status'' = None"
    using that sales_issue_origin(4) unfolding xs by blast
  have missing: "\<forall>i \<in> set xs. issue_type i = ''MISSING_VALUE'' \<longrightarrow>
             issue_detail i = Some ''Missing discount_pct''"
    using sales_issue_origin(5) unfolding xs by blast
  from ts city channel pay absent absent_city absent_channel absent_pay missing
  show ?thesis by (intro conjI impI)
qed


text \<open>
  A record whose four guarded fields are null, and two records without them.
\<close>

theorem C9_null_field_fires_witness:
  "validate_sales_record lib_none init_validator null_fields (VStr ''ROW_0'') =
     Inr [mk_issue ''INVALID_TIMESTAMP'' ''Missing timestamp'' ''DROP'',
          mk_issue ''INVALID_CITY'' ''Missing city'' ''CORRECT'',
          mk_issue ''INVALID_CHANNEL'' ''Missing channel'' ''CORRECT'',
          mk_issue ''INVALID_VALUE'' ''Missing payment_status'' ''CORRECT'',
          mk_issue ''MISSING_VALUE'' ''Missing discount_pct'' ''IMPUTE'']
   \<and> mk_issue ''INVALID_TIMESTAMP'' ''Missing timestamp'' ''DROP''
       \<in> set (sales_issues lib_none null_fields)
   \<and> mk_issue ''INVALID_CITY'' ''Missing city'' ''CORRECT''
       \<in> set (sales_issues lib_none null_fields)
   \<and> mk_issue ''INVALID_CHANNEL'' ''Missing channel'' ''CORRECT''
       \<in> set (sales_issues lib_none null_fields)
   \<and> mk_issue ''INVALID_VALUE'' ''Missing payment_status'' ''CORRECT''
       \<in> set (sales_issues lib_none null_fields)
   \<and> ''INVALID_TIMESTAMP'' \<notin> issue_type ` set (sales_issues lib_none scenario_B)
   \<and> ''INVALID_CHANNEL'' \<notin> issue_type ` set (sales_issues lib_none scenario_B)
   \<and> ''INVALID_VALUE'' \<notin> issue_type ` set (sales_issues lib_none scenario_B)
   \<and> ''INVALID_CITY'' \<notin> issue_type ` set (sales_issues lib_none Map.empty)"
proof -
  have ev: "validate_sales_record lib_none init_validator null_fields (VStr ''ROW_0'') =
     Inr [mk_issue ''INVALID_TIMESTAMP'' ''Missing timestamp'' ''DROP'',
          mk_issue ''INVALID_CITY'' ''Missing city'' ''CORRECT'',
          mk_issue ''INVALID_CHANNEL'' ''Missing channel'' ''CORRECT'',
          mk_issue ''INVALID_VALUE'' ''Missing payment_status'' ''CORRECT'',
          mk_issue ''MISSING_VALUE'' ''Missing discount_pct'' ''IMPUTE'']"
    by (simp add: validate_sales_record_def null_fields_def check_defs bind_exn_def mk_issue_def
          validate_timestamp_def validate_city_def validate_channel_def
          validate_payment_status_def)
  have run: "validate_sales_record lib_none init_validator null_fields (VStr ''ROW_0'') =
               Inr (sales_issues lib_none null_fields)"
    using validate_sales_record_result [OF ev] ev by simp
  have runB: "validate_sales_record lib_none init_validator scenario_B (VStr ''ROW_0'') =
               Inr (sales_issues lib_none scenario_B)"
    using validate_sales_record_result [OF scenario_B_issues] scenario_B_issues [of lib_none init_validator "VStr ''ROW_0''"]
    by simp
  have evE: "validate_sales_record lib_none init_validator Map.empty (VStr ''ROW_0'') =
               Inr [mk_issue ''MISSING_VALUE'' ''Missing discount_pct'' ''IMPUTE'']"
    by (simp add: validate_sales_record_def check_defs bind_exn_def mk_issue_def)
  have runE: "validate_sales_record lib_none init_validator Map.empty (VStr ''ROW_0'') =
               Inr (sales_issues lib_none Map.empty)"
    using validate_sales_record_result [OF evE] evE by simp
  have n1: "null_fields ''order_time'' = Some VNone \<and> pd_isna VNone"
    and n2: "null_fields ''city'' = Some (VFloat FNaN) \<and> pd_isna (VFloat FNaN)"
    and n3: "null_fields ''channel'' = Some VNone \<and> pd_isna VNone"
    and n4: "null_fields ''payment_status'' = Some (VFloat FNaN) \<and> pd_isna (VFloat FNaN)"
    by (simp_all add: null_fields_def)
  have a1: "scenario_B ''order_time'' = None" and a3: "scenario_B ''channel'' = None"
    and a4: "scenario_B ''payment_status'' = None"
    by (simp_all add: scenario_B_def)
  have a2: "(Map.empty :: pyrecord) ''city'' = None"
    by simp
  from C9_null_field_fires [OF run, of VNone] n1 n3
  have 1: "mk_issue ''INVALID_TIMESTAMP'' ''Missing timestamp'' ''DROP''
            \<in> set (sales_issues lib_none null_fields)"
    and 3: "mk_issue ''INVALID_CHANNEL'' ''Missing channel'' ''CORRECT''
            \<in> set (sales_issues lib_none null_fields)"
    by blast+
  from C9_null_field_fires [OF run, of "VFloat FNaN"] n2 n4
  have 2: "mk_issue ''INVALID_CITY'' ''Missing city'' ''CORRECT''
            \<in> set (sales_issues lib_none null_fields)"
    and 4: "mk_issue ''INVALID_VALUE'' ''Missing payment_status'' ''CORRECT''
            \<in> set (sales_issues lib_none null_fields)"
    by blast+
  from C9_null_field_fires [OF runB, of VNone] a1 a3 a4
  have 5: "''INVALID_TIMESTAMP'' \<notin> issue_type ` set (sales_issues lib_none scenario_B)"
    and 6: "''INVALID_CHANNEL'' \<notin> issue_type ` set (sales_issues lib_none scenario_B)"
    and 7: "''INVALID_VALUE'' \<notin> issue_type ` set (sales_issues lib_none scenario_B)"
    by auto
  from C9_null_field_fires [OF runE, of VNone] a2
  have 8: "''INVALID_CITY'' \<notin> issue_type ` set (sales_issues lib_none Map.empty)"
    by auto
  from ev 1 2 3 4 5 6 7 8 show ?thesis by (intro conjI)
qed

subsection \<open>Issue types and the policy table\<close>

lemma field_issues_emitted:
  assumes "i \<in> set (field_issues rule record k ty act)" and "(ty, act) \<in> emitted"
  shows "(issue_type i, action_taken i) \<in> emitted"
  using field_issues_type [OF assms(1)] assms(2) by simp

lemma cost_issues_emitted:
  assumes "i \<in> set (cost_issues L record)"
  shows "(issue_type i, action_taken i) \<in> emitted"
  using cost_issues_type [OF assms] by (simp add: emitted_def)

lemma missing_issues_emitted:
  assumes "i \<in> set (missing_issues record k)"
  shows "(issue_type i, action_taken i) \<in> emitted"
  using missing_issues_type [OF assms] by (simp add: emitted_def mk_issue_def)

lemma emitted_members:
  "(''INVALID_TIMESTAMP'', ''DROP'') \<in> emitted" "(''OUTLIER_VALUE'', ''CAP'') \<in> emitted"
  "(''INVALID_CITY'', ''CORRECT'') \<in> emitted" "(''INVALID_CHANNEL'', ''CORRECT'') \<in> emitted"
  "(''INVALID_VALUE'', ''CORRECT'') \<in> emitted" "(''IMPOSSIBLE_VALUE'', ''CORRECT'') \<in> emitted"
  by (simp_all add: emitted_def)

lemma sales_issues_emitted:
  assumes "i \<in> set (sales_issues L record)"
  shows "(issue_type i, action_taken i) \<in> emitted"
  using sales_issues_cases [OF assms]
  by (elim disjE) (erule field_issues_emitted cost_issues_emitted missing_issues_emitted,
                   (rule emitted_members)?)+

lemma record_issues_emitted:
  assumes "i \<in> set (record_issues L k record)"
  shows "(issue_type i, action_taken i) \<in> emitted"
proof -
  consider "k = ''sales''" | "k \<noteq> ''sales''" "k = ''inventory''"
    | "k \<noteq> ''sales''" "k \<noteq> ''inventory''" "k = ''products''"
    | "k \<noteq> ''sales''" "k \<noteq> ''inventory''" "k \<noteq> ''products''"
    by blast
  then show ?thesis
  proof cases
    case 1
    with assms show ?thesis by (simp add: record_issues_def sales_issues_emitted)
  next
    case 2
    with assms have "i \<in> set (field_issues (validate_stock L) record ''stock_on_hand'' ''IMPOSSIBLE_VALUE'' ''CORRECT'')"
      by (simp add: record_issues_def)
    then show ?thesis by (rule field_issues_emitted) (rule emitted_members)
  next
    case 3
    with assms have "i \<in> set (missing_issues record ''unit_cost_aed'') \<or> i \<in> set (cost_issues L record)"
      by (simp add: record_issues_def)
    then show ?thesis by (auto intro: missing_issues_emitted cost_issues_emitted)
  next
    case 4
    with assms show ?thesis by (simp add: record_issues_def)
  qed
qed

lemma emitted_policy:
  assumes "(t, a) \<in> emitted"
  shows "t \<in> fst ` set POLICIES \<and> a = action (get_policy t) \<and> a \<noteq> ''SKIP''"
  using assms unfolding emitted_def
  by (elim insertE emptyE) (simp_all add: known_type_actions POLICIES_def)

lemma row_out_emitted:
  assumes "i \<in> set (row_out L k x)"
  shows "(issue_type i, action_taken i) \<in> emitted"
proof -
  obtain idx row where x: "x = (idx, row)" by (cases x)
  with assms obtain rid j where j: "j \<in> set (record_issues L k row)"
    and i: "i = stamp rid j"
    by (auto simp: row_out_def split: sum.splits)
  from j have "(issue_type j, action_taken j) \<in> emitted"
    by (rule record_issues_emitted)
  with i show ?thesis by (simp add: stamp_def)
qed

text \<open>
  C10. Every issue \<^verbatim>\<open>validate_dataset\<close> returns, for any dataset and any kind, has a type
  of the policy table, carries the action the table gives that type, and so never the
  SKIP of the default policy.
\<close>

theorem C10_issue_types_in_policy_table:
  assumes "validate_dataset L self df k = Inr (out, self')" and "i \<in> set out"
  shows "issue_type i \<in> fst ` set POLICIES
       \<and> action_taken i = action (get_policy (issue_type i))
       \<and> action (get_policy (issue_type i)) \<noteq> ''SKIP''
       \<and> get_policy (issue_type i) \<noteq> default_policy"
proof -
  from assms(1) have "out = concat (map (row_out L k) df)"
    by (rule validate_dataset_result)
  with assms(2) obtain x where "i \<in> set (row_out L k x)"
    by auto
  then have "(issue_type i, action_taken i) \<in> emitted"
    by (rule row_out_emitted)
  then have p: "issue_type i \<in> fst ` set POLICIES
       \<and> action_taken i = action (get_policy (issue_type i)) \<and> action_taken i \<noteq> ''SKIP''"
    by (rule emitted_policy)
  then have a: "issue_type i \<in> fst ` set POLICIES"
    and b: "action_taken i = action (get_policy (issue_type i))"
    and c: "action_taken i \<noteq> ''SKIP''"
    by (rule conjunct1, rule conjunct2 [THEN conjunct1], rule conjunct2 [THEN conjunct2])
  from b c have d: "action (get_policy (issue_type i)) \<noteq> ''SKIP''"
    by simp
  then have "action (get_policy (issue_type i)) \<noteq> action default_policy"
    by (simp add: default_policy_def)
  then have "get_policy (issue_type i) \<noteq> default_policy"
    by auto
  with a b d show ?thesis by (intro conjI)
qed

lemma scenario_B_identifier: "resolve_record_id L (VInt 0) scenario_B = Inr (VStr ''ROW_0'')"
  by (simp add: resolve_record_id_def py_or_def bind_exn_def dict_get_def scenario_B_def
        py_int_str_def int_str_def digits_str.simps digit_char_def)

lemma scenario_B_dataset:
  "validate_dataset lib_none init_validator [(VInt 0, scenario_B)] ''sales'' =
     Inr ([\<lparr>issue_type = ''OUTLIER_VALUE'',
              issue_detail = Some ''Outside range [0, 10000]: 15000.0'', action_taken = ''CAP'',
              record_identifier = VStr ''ROW_0''\<rparr>,
           \<lparr>issue_type = ''INVALID_CITY'',
              issue_detail = Some ''Invalid city: Dubayy'', action_taken = ''CORRECT'',
              record_identifier = VStr ''ROW_0''\<rparr>,
           \<lparr>issue_type = ''MISSING_VALUE'',
              issue_detail = Some ''Missing discount_pct'', action_taken = ''IMPUTE'',
              record_identifier = VStr ''ROW_0''\<rparr>],
          \<lparr>issues =
           [\<lparr>issue_type = ''OUTLIER_VALUE'',
              issue_detail = Some ''Outside range [0, 10000]: 15000.0'', action_taken = ''CAP'',
              record_identifier = VStr ''ROW_0''\<rparr>,
           \<lparr>issue_type = ''INVALID_CITY'',
              issue_detail = Some ''Invalid city: Dubayy'', action_taken = ''CORRECT'',
              record_identifier = VStr ''ROW_0''\<rparr>,
           \<lparr>issue_type = ''MISSING_VALUE'',
              issue_detail = Some ''Missing discount_pct'', action_taken = ''IMPUTE'',
              record_identifier = VStr ''ROW_0''\<rparr>]\<rparr>)"
  by (simp add: validate_dataset_def validate_record_def scenario_B_issues
        scenario_B_identifier stamp_def init_validator_def bind_exn_def)

text \<open>The dataset of the one record of scenario B, and its INVALID_CITY issue.\<close>

theorem C10_issue_types_witness:
  "returned (validate_dataset lib_none init_validator [(VInt 0, scenario_B)] ''sales'') =
     Some [\<lparr>issue_type = ''OUTLIER_VALUE'',
              issue_detail = Some ''Outside range [0, 10000]: 15000.0'', action_taken = ''CAP'',
              record_identifier = VStr ''ROW_0''\<rparr>,
           \<lparr>issue_type = ''INVALID_CITY'',
              issue_detail = Some ''Invalid city: Dubayy'', action_taken = ''CORRECT'',
              record_identifier = VStr ''ROW_0''\<rparr>,
           \<lparr>issue_type = ''MISSING_VALUE'',
              issue_detail = Some ''Missing discount_pct'', action_taken = ''IMPUTE'',
              record_identifier = VStr ''ROW_0''\<rparr>]
   \<and> ''INVALID_CITY'' \<in> fst ` set POLICIES
   \<and> action (get_policy ''INVALID_CITY'') = ''CORRECT''
   \<and> get_policy ''INVALID_CITY'' \<noteq> default_policy"
proof -
  have "\<lparr>issue_type = ''INVALID_CITY'',
              issue_detail = Some ''Invalid city: Dubayy'', action_taken = ''CORRECT'',
              record_identifier = VStr ''ROW_0''\<rparr>
        \<in> set [\<lparr>issue_type = ''OUTLIER_VALUE'',
              issue_detail = Some ''Outside range [0, 10000]: 15000.0'', action_taken = ''CAP'',
              record_identifier = VStr ''ROW_0''\<rparr>,
           \<lparr>issue_type = ''INVALID_CITY'',
              issue_detail = Some ''Invalid city: Dubayy'', action_taken = ''CORRECT'',
              record_identifier = VStr ''ROW_0''\<rparr>,
           \<lparr>issue_type = ''MISSING_VALUE'',
              issue_detail = Some ''Missing discount_pct'', action_taken = ''IMPUTE'',
              record_identifier = VStr ''ROW_0''\<rparr>]"
    by simp
  from C10_issue_types_in_policy_table [OF scenario_B_dataset this]
  have "''INVALID_CITY'' \<in> fst ` set POLICIES
   \<and> action (get_policy ''INVALID_CITY'') = ''CORRECT''
   \<and> get_policy ''INVALID_CITY'' \<noteq> default_policy"
    by simp
  then show ?thesis
    by (simp add: scenario_B_dataset returned_def)
qed

subsection \<open>Integers too large to convert\<close>

lemma digits_str_length:
  assumes "10 ^ k \<le> n"
  shows "k < length (digits_str n)"
  using assms
proof (induction k arbitrary: n)
  case 0
  then show ?case by (subst digits_str.simps) simp
next
  case (Suc k)
  have "(1::int) \<le> 10 ^ k" by simp
  moreover from Suc.prems have "10 * 10 ^ k \<le> n" by simp
  ultimately have "\<not> n < 10" by linarith
  from Suc.prems have "10 ^ k * 10 \<le> n" by (simp add: mult.commute)
  then have "(10 ^ k * 10) div 10 \<le> n div 10" by (rule zdiv_mono1) simp
  then have "10 ^ k \<le> n div 10" by simp
  with Suc.IH [of "n div 10"] \<open>\<not> n < 10\<close> show ?case
    by (subst digits_str.simps) simp
qed

lemma bit_length_bounds:
  assumes "0 < a"
  shows "2 ^ bit_length a \<le> 2 * a \<and> a < 2 ^ bit_length a"
  using assms
proof (induction a rule: bit_length.induct)
  case (1 n)
  show ?case
  proof (cases "n div 2 = 0")
    case True
    with 1 have "n = 1" by presburger
    then show ?thesis
      by (simp add: bit_length.simps [of 1] bit_length.simps [of 0])
  next
    case False
    with 1 have pos: "0 < n div 2" by presburger
    with 1 have "2 ^ bit_length (n div 2) \<le> 2 * (n div 2) \<and> n div 2 < 2 ^ bit_length (n div 2)"
      by simp
    moreover have "bit_length n = Suc (bit_length (n div 2))"
      using 1(2) by (subst bit_length.simps) simp
    ultimately show ?thesis by (simp; presburger)
  qed
qed

lemma rounded_overflow:
  fixes a :: int
  assumes big: "2 ^ k \<le> a" and k: "53 \<le> k" and m: "a div 2 ^ (bit_length a - 53) \<le> m"
  shows "2 ^ k \<le> m * 2 ^ (bit_length a - 53)"
proof -
  define e where "e = bit_length a"
  define sh where "sh = e - 53"
  have "(0::int) < 2 ^ k" by simp
  with big have apos: "0 < a" by linarith
  from bit_length_bounds [OF apos] have lo: "2 ^ e \<le> 2 * a" and hi: "a < 2 ^ e"
    by (simp_all add: e_def)
  from big hi have "(2::int) ^ k < 2 ^ e" by linarith
  then have ke: "k < e" by (simp add: power_strict_increasing_iff)
  with k have esh: "e = Suc (52 + sh)" by (simp add: sh_def)
  from lo have "2 * (2::int) ^ (52 + sh) \<le> 2 * a" unfolding esh power_Suc .
  then have "(2::int) ^ (52 + sh) \<le> a" by linarith
  then have "(2::int) ^ 52 * 2 ^ sh \<le> a" by (simp only: power_add)
  then have "((2::int) ^ 52 * 2 ^ sh) div 2 ^ sh \<le> a div 2 ^ sh"
    by (rule zdiv_mono1) simp
  then have "(2::int) ^ 52 \<le> a div 2 ^ sh" by simp
  with m have "(2::int) ^ 52 \<le> m" by (simp add: sh_def e_def)
  then have upper: "(2::int) ^ 52 * 2 ^ sh \<le> m * 2 ^ sh"
    by (rule mult_right_mono) simp
  have "(2::int) ^ k \<le> 2 ^ (52 + sh)"
    using ke by (intro power_increasing) (simp_all add: esh)
  then have "(2::int) ^ k \<le> 2 ^ 52 * 2 ^ sh"
    by (simp only: power_add)
  from this upper have "(2::int) ^ k \<le> m * 2 ^ sh"
    by (rule order_trans)
  then show ?thesis
    by (simp only: sh_def e_def)
qed

lemma float_of_int_overflow:
  assumes "2 ^ 1024 \<le> \<bar>n\<bar>"
  shows "float_of_int n = Inl OverflowError"
proof -
  let ?sh = "bit_length \<bar>n\<bar> - 53"
  let ?q = "\<bar>n\<bar> div 2 ^ ?sh"
  let ?m = "if 2 ^ (?sh - 1) < \<bar>n\<bar> mod 2 ^ ?sh \<or> (\<bar>n\<bar> mod 2 ^ ?sh = 2 ^ (?sh - 1) \<and> odd ?q)
            then ?q + 1 else ?q"
  have "?q \<le> ?m" by simp
  with assms have over: "2 ^ 1024 \<le> ?m * 2 ^ ?sh"
    by (intro rounded_overflow) simp_all
  have "(2::int) ^ 53 < 2 ^ 1024" by (rule power_strict_increasing) simp_all
  with assms have small: "\<not> \<bar>n\<bar> \<le> 2 ^ 53" by linarith
  show ?thesis
    unfolding float_of_int_def Let_def
    using over small by (simp only: if_True if_False)
qed

lemma huge_int_not_printable:
  assumes "10 ^ 640 \<le> n" and "10 ^ int_max_str_digits L \<le> n" and "0 < int_max_str_digits L"
  shows "py_str L (VInt n) = Inl ValueError"
proof -
  have "(0::int) < 10 ^ 640" by (rule zero_less_power) simp
  with assms(1) have "0 \<le> n" by linarith
  with assms digits_str_length [of 640 n] digits_str_length [of "int_max_str_digits L" n]
  show ?thesis
    by (simp add: py_int_str_def int_str_def)
qed

lemma huge_price_raises:
  "validate_price lib_none (VInt (10 ^ 5000)) = Inl ValueError"
proof -
  have "(2::int) ^ 1024 \<le> 10 ^ 1024" by (rule power_mono) simp_all
  also have "(10::int) ^ 1024 \<le> 10 ^ 5000" by (rule power_increasing) simp_all
  finally have "py_float lib_none (VInt (10 ^ 5000)) = Inl OverflowError"
    by (simp add: float_of_int_overflow del: power_numeral)
  moreover have "py_str lib_none (VInt (10 ^ 5000)) = Inl ValueError"
    by (rule huge_int_not_printable) (simp_all add: lib_none_def power_increasing del: power_numeral)
  ultimately show ?thesis
    by (simp add: validate_price_def try_except_def bind_exn_def reject_def del: power_numeral)
qed

subsection \<open>Record identifiers\<close>

lemma missing_unit_cost:
  assumes "record ''unit_cost_aed'' = None"
  shows "validate_record L self ''products'' record rid =
           Inr [\<lparr>issue_type = ''MISSING_VALUE'', issue_detail = Some ''Missing unit_cost_aed'',
                  action_taken = ''IMPUTE''\<rparr>]"
  using assms
  by (simp add: validate_record_def validate_products_record_def check_missing_def
        check_cost_constraint_def bind_exn_def)

text \<open>
  C2, at the failing input. For a row whose \<^verbatim>\<open>order_id\<close> is the NaN of a blank cell and whose
  \<^verbatim>\<open>product_id\<close> is \<^verbatim>\<open>P0001\<close>, the issue that \<^verbatim>\<open>validate_dataset\<close> returns carries the float
  NaN as its identifier, where the first candidate that is not missing is \<^verbatim>\<open>P0001\<close>. When
  the blank cell is \<^verbatim>\<open>pd.NA\<close> the pass raises TypeError instead of returning.
\<close>

theorem C2_nan_order_id_wins:
  "identifiers (validate_dataset lib_none init_validator [(VInt 0, nan_order)] ''products'') =
     Some [VFloat FNaN]
   \<and> spec_record_id lib_none (VInt 0) nan_order = Inr (VStr ''P0001'')
   \<and> validate_dataset lib_none init_validator [(VInt 0, na_order)] ''products'' = Inl TypeError
   \<and> spec_record_id lib_none (VInt 0) na_order = Inr (VStr ''P0001'')"
proof -
  have "nan_order ''unit_cost_aed'' = None"
    by (simp add: nan_order_def)
  moreover have "resolve_record_id lib_none (VInt 0) nan_order = Inr (VFloat FNaN)"
    and "resolve_record_id lib_none (VInt 0) na_order = Inl TypeError"
    by (simp_all add: resolve_record_id_def py_or_def bind_exn_def dict_get_def nan_order_def
          na_order_def)
  moreover have "spec_record_id lib_none (VInt 0) nan_order = Inr (VStr ''P0001'')"
    and "spec_record_id lib_none (VInt 0) na_order = Inr (VStr ''P0001'')"
    by (simp_all add: spec_record_id_def dict_get_def nan_order_def na_order_def)
  ultimately show ?thesis
    by (simp add: identifiers_def returned_def validate_dataset_def missing_unit_cost
          bind_exn_def stamp_def)
qed

subsection \<open>Two runs of a pass\<close>

text \<open>No method reads the validator it receives.\<close>

lemma validate_record_any_self:
  "validate_record L s1 k record rid = validate_record L s2 k record rid"
  by (simp add: validate_record_def validate_sales_record_def validate_inventory_record_def
        validate_products_record_def)

lemma validate_rows_any_self:
  "validate_rows L s1 k df acc = validate_rows L s2 k df acc"
proof (induction df arbitrary: acc)
  case Nil
  then show ?case by simp
next
  case (Cons x df)
  obtain idx row where x: "x = (idx, row)" by (cases x)
  show ?case
    unfolding x validate_rows.simps
    by (simp only: validate_record_any_self [of L s1 k row _ s2] Cons.IH)
qed

text \<open>
  C4. Two runs of \<^verbatim>\<open>validate_dataset\<close> on the same dataset and kind have the same outcome,
  the same issue sequence or the same exception, from any two validator states; and a run
  from the state that a returning run left returns the same sequence again and leaves the
  state as it is.
\<close>

theorem C4_deterministic:
  "map_sum id fst (validate_dataset L s1 df k) = map_sum id fst (validate_dataset L s2 df k)
   \<and> (validate_dataset L s1 df k = Inr (out, s1') \<longrightarrow>
        validate_dataset L s1' df k = Inr (out, s1'))"
proof (intro conjI impI)
  show "map_sum id fst (validate_dataset L s1 df k) = map_sum id fst (validate_dataset L s2 df k)"
    by (cases "validate_rows L s2 k df []")
       (simp_all add: validate_dataset_def validate_rows_any_self [of L s1 k df "[]" s2])
next
  assume run: "validate_dataset L s1 df k = Inr (out, s1')"
  then have rows: "validate_rows L s1 k df [] = Inr out" and s1': "s1' = s1\<lparr>issues := out\<rparr>"
    by (auto simp: validate_dataset_def split: sum.splits)
  from rows have "validate_rows L s1' k df [] = Inr out"
    by (simp only: validate_rows_any_self [of L s1' k df "[]" s1])
  then show "validate_dataset L s1' df k = Inr (out, s1')"
    by (simp add: validate_dataset_def s1')
qed

text \<open>
  A second run on an inventory row, from the state the first run left.
\<close>

theorem C4_deterministic_witness:
  "validate_dataset lib_none
     \<lparr>issues = [\<lparr>issue_type = ''IMPOSSIBLE_VALUE'', issue_detail = Some ''Negative stock: -50.0'',
                  action_taken = ''CORRECT'', record_identifier = VStr ''ROW_7''\<rparr>]\<rparr>
     [(VInt 7, [''stock_on_hand'' \<mapsto> VInt (- 50)])] ''inventory''
   = Inr ([\<lparr>issue_type = ''IMPOSSIBLE_VALUE'', issue_detail = Some ''Negative stock: -50.0'',
             action_taken = ''CORRECT'', record_identifier = VStr ''ROW_7''\<rparr>],
          \<lparr>issues = [\<lparr>issue_type = ''IMPOSSIBLE_VALUE'', issue_detail = Some ''Negative stock: -50.0'',
                  action_taken = ''CORRECT'', record_identifier = VStr ''ROW_7''\<rparr>]\<rparr>)"
proof -
  have "validate_dataset lib_none init_validator
          [(VInt 7, [''stock_on_hand'' \<mapsto> VInt (- 50)])] ''inventory''
        = Inr ([\<lparr>issue_type = ''IMPOSSIBLE_VALUE'', issue_detail = Some ''Negative stock: -50.0'',
                  action_taken = ''CORRECT'', record_identifier = VStr ''ROW_7''\<rparr>],
               \<lparr>issues = [\<lparr>issue_type = ''IMPOSSIBLE_VALUE'',
                   issue_detail = Some ''Negative stock: -50.0'',
                   action_taken = ''CORRECT'', record_identifier = VStr ''ROW_7''\<rparr>]\<rparr>)"
    by (simp add: validate_dataset_def init_validator_def validate_record_def
          validate_inventory_record_def check_stock_def emit_def validate_stock_def
          resolve_record_id_def py_or_def dict_get_def stamp_def num_defs)
  with C4_deterministic [of lib_none init_validator
          "[(VInt 7, [''stock_on_hand'' \<mapsto> VInt (- 50)])]" "''inventory''"]
  show ?thesis by blast
qed

subsection \<open>The price rule\<close>

lemma bounds_rendered:
  "py_int_str L PRICE_MIN = Inr ''0''" "py_int_str L PRICE_MAX = Inr ''10000''"
  "py_int_str L QUANTITY_MIN = Inr ''1''" "py_int_str L QUANTITY_MAX = Inr ''100''"
  by (simp_all add: PRICE_MIN_def PRICE_MAX_def QUANTITY_MIN_def QUANTITY_MAX_def py_int_str_def
        int_str_def digits_str.simps digit_char_def)

lemma price_out_of_bounds:
  assumes "p \<noteq> FNaN"
  shows "(f_less_int p PRICE_MIN \<or> f_greater_int p PRICE_MAX) \<longleftrightarrow> \<not> within_bounds 0 10000 p"
  using assms
  by (cases p) (auto simp: f_less_int_def f_greater_int_def PRICE_MIN_def PRICE_MAX_def)

lemma price_rule_in_range:
  assumes "py_float L v = Inr p" and "p \<noteq> FNaN"
  shows "validate_price L v =
           (if within_bounds 0 10000 p then Inr (True, None)
            else Inr (False, Some (''Outside range [0, 10000]: '' @ float_repr L p)))"
  using assms price_out_of_bounds [of p]
  by (simp add: validate_price_def try_except_def bind_exn_def outside_range_def reject_def
        bounds_rendered)

text \<open>
  C5, at the failing inputs. \<^verbatim>\<open>float\<close> returns NaN for NaN, NaN is not between the bounds,
  and the price rule accepts it, where \<^verbatim>\<open>validate_quantity\<close> rejects NaN and the price rule
  itself rejects \<^verbatim>\<open>None\<close>. On an integer of 5001 digits \<^verbatim>\<open>float\<close> raises, and the handler
  raises ValueError while it renders the value, instead of returning "Not numeric".
\<close>

theorem C5_price_rule_accepts_nan:
  "py_float lib_none (VFloat FNaN) = Inr FNaN
   \<and> \<not> within_bounds 0 10000 FNaN
   \<and> validate_price lib_none (VFloat FNaN) = Inr (True, None)
   \<and> validate_quantity lib_none (VFloat FNaN) = Inr (False, Some ''Not numeric: nan'')
   \<and> validate_price lib_none VNone = Inr (False, Some ''Not numeric: None'')
   \<and> validate_price lib_none (VInt (10 ^ 5000)) = Inl ValueError"
proof -
  have "validate_price lib_none (VFloat FNaN) = Inr (True, None)"
    by (simp add: validate_price_def try_except_def bind_exn_def f_less_int_def f_greater_int_def)
  moreover have "validate_quantity lib_none (VFloat FNaN) = Inr (False, Some ''Not numeric: nan'')"
    by (simp add: validate_quantity_def try_except_def bind_exn_def reject_def float_repr_def)
  moreover have "validate_price lib_none VNone = Inr (False, Some ''Not numeric: None'')"
    by (simp add: validate_price_def try_except_def bind_exn_def reject_def)
  ultimately show ?thesis
    by (simp add: huge_price_raises del: power_numeral)
qed

subsection \<open>Totality of the rules\<close>

lemma printable_str:
  "printable L v \<longleftrightarrow> (\<exists>s. py_str L v = Inr s)"
  by (cases "py_str L v") (simp_all add: printable_def)

lemma reject_returns:
  assumes "printable L v"
  shows "\<exists>r. reject prefix (py_str L v) = Inr r"
  using assms by (auto simp: printable_str reject_def bind_exn_def)

lemma try_except_returns:
  assumes "\<exists>r. handler = Inr r"
  shows "\<exists>r. try_except body handler = Inr r"
  using assms by (cases body) (auto simp: try_except_def)

lemma validate_timestamp_returns:
  assumes "printable L v"
  shows "\<exists>r. validate_timestamp L v = Inr r"
proof (cases "pd_isna v \<or> is_empty_str v")
  case True
  then show ?thesis by (auto simp: validate_timestamp_def)
next
  case False
  then show ?thesis
    unfolding validate_timestamp_def
    by (simp only: if_False) (rule try_except_returns, rule reject_returns [OF assms])
qed

lemma validate_price_returns:
  assumes "printable L v"
  shows "\<exists>r. validate_price L v = Inr r"
  unfolding validate_price_def
  by (rule try_except_returns) (rule reject_returns [OF assms])

lemma validate_quantity_returns:
  assumes "printable L v"
  shows "\<exists>r. validate_quantity L v = Inr r"
  unfolding validate_quantity_def
  by (rule try_except_returns) (rule reject_returns [OF assms])

lemma validate_city_returns:
  assumes "printable L v"
  shows "\<exists>r. validate_city L v = Inr r"
  using assms by (auto simp: printable_str validate_city_def bind_exn_def Let_def)

lemma validate_channel_returns:
  assumes "printable L v"
  shows "\<exists>r. validate_channel L v = Inr r"
  using assms by (auto simp: printable_str validate_channel_def bind_exn_def Let_def)

lemma validate_payment_status_returns:
  assumes "printable L v"
  shows "\<exists>r. validate_payment_status L v = Inr r"
  using assms by (auto simp: printable_str validate_payment_status_def bind_exn_def Let_def)

lemma validate_cost_constraint_returns: "\<exists>r. validate_cost_constraint L c p = Inr r"
  by (auto simp: validate_cost_constraint_def try_except_def split: sum.splits)

lemma validate_stock_returns:
  assumes "printable L v"
  shows "\<exists>r. validate_stock L v = Inr r"
  unfolding validate_stock_def
  by (rule try_except_returns) (rule reject_returns [OF assms])

lemma not_numeric:
  assumes "py_float L v = Inl e" and "py_str L v = Inr s"
  shows "validate_price L v = Inr (False, Some (''Not numeric: '' @ s))"
    and "validate_quantity L v = Inr (False, Some (''Not numeric: '' @ s))"
    and "validate_stock L v = Inr (False, Some (''Not numeric: '' @ s))"
  using assms
  by (simp_all add: validate_price_def validate_quantity_def validate_stock_def try_except_def
        bind_exn_def reject_def)

lemma not_integral:
  assumes "py_float L v = Inr x" and "int_of_float x = Inl e" and "py_str L v = Inr s"
  shows "validate_quantity L v = Inr (False, Some (''Not numeric: '' @ s))"
  using assms by (simp add: validate_quantity_def try_except_def bind_exn_def reject_def)

lemma unparsable:
  assumes "\<not> pd_isna v" and "\<not> is_empty_str v" and "py_str L v = Inr s"
    and "re_match TIMESTAMP_PATTERN s" and "\<not> to_datetime_ok L v"
  shows "validate_timestamp L v = Inr (False, Some (''Unparsable: '' @ s))"
  using assms by (simp add: validate_timestamp_def try_except_def bind_exn_def reject_def)

lemma cost_permissive:
  assumes "py_float L c = Inl e \<or> py_float L p = Inl e'"
  shows "validate_cost_constraint L c p = Inr (True, None)"
  using assms by (auto simp: validate_cost_constraint_def try_except_def split: sum.splits)

subsection \<open>A pass that returns\<close>

lemma emit_returns:
  assumes "\<exists>r. res = Inr r"
  shows "\<exists>ys. emit xs res ty act = Inr ys"
  using assms by (auto simp: emit_def)

lemma rendered_field_printable:
  assumes "list_all (\<lambda>k. case record k of None \<Rightarrow> True | Some v \<Rightarrow> printable L v) rendered_fields"
    and "f \<in> set rendered_fields" and "record f = Some v"
  shows "printable L v"
proof -
  from assms(1,2) have "case record f of None \<Rightarrow> True | Some v \<Rightarrow> printable L v"
    by (auto simp: list_all_iff)
  with assms(3) show ?thesis by simp
qed

lemma field_check_returns:
  assumes "\<And>v. record f = Some v \<Longrightarrow> \<exists>r. rule v = Inr r"
  shows "\<exists>ys. (case record f of None \<Rightarrow> Inr xs | Some v \<Rightarrow> emit xs (rule v) ty act) = Inr ys"
proof (cases "record f")
  case None
  then show ?thesis by simp
next
  case (Some v)
  from emit_returns [OF assms [OF Some]] Some show ?thesis by simp
qed

lemma checks_return:
  assumes "list_all (\<lambda>k. case record k of None \<Rightarrow> True | Some v \<Rightarrow> printable L v) rendered_fields"
  shows "\<exists>ys. check_order_time L record xs = Inr ys"
    and "\<exists>ys. check_selling_price L record xs = Inr ys"
    and "\<exists>ys. check_qty L record xs = Inr ys"
    and "\<exists>ys. check_city L record xs = Inr ys"
    and "\<exists>ys. check_channel L record xs = Inr ys"
    and "\<exists>ys. check_payment_status L record xs = Inr ys"
    and "\<exists>ys. check_cost_constraint L record xs = Inr ys"
    and "\<exists>ys. check_stock L record xs = Inr ys"
proof -
  have p: "printable L v" if "f \<in> set rendered_fields" and "record f = Some v" for f v
    using assms that by (rule rendered_field_printable)
  show "\<exists>ys. check_order_time L record xs = Inr ys"
    unfolding check_order_time_def
    by (rule field_check_returns, rule validate_timestamp_returns, rule p)
       (simp_all add: rendered_fields_def)
  show "\<exists>ys. check_selling_price L record xs = Inr ys"
    unfolding check_selling_price_def
    by (rule field_check_returns, rule validate_price_returns, rule p)
       (simp_all add: rendered_fields_def)
  show "\<exists>ys. check_qty L record xs = Inr ys"
    unfolding check_qty_def
    by (rule field_check_returns, rule validate_quantity_returns, rule p)
       (simp_all add: rendered_fields_def)
  show "\<exists>ys. check_city L record xs = Inr ys"
    unfolding check_city_def
    by (rule field_check_returns, rule validate_city_returns, rule p)
       (simp_all add: rendered_fields_def)
  show "\<exists>ys. check_channel L record xs = Inr ys"
    unfolding check_channel_def
    by (rule field_check_returns, rule validate_channel_returns, rule p)
       (simp_all add: rendered_fields_def)
  show "\<exists>ys. check_payment_status L record xs = Inr ys"
    unfolding check_payment_status_def
    by (rule field_check_returns, rule validate_payment_status_returns, rule p)
       (simp_all add: rendered_fields_def)
  show "\<exists>ys. check_stock L record xs = Inr ys"
    unfolding check_stock_def
    by (rule field_check_returns, rule validate_stock_returns, rule p)
       (simp_all add: rendered_fields_def)
  show "\<exists>ys. check_cost_constraint L record xs = Inr ys"
  proof (cases "record ''unit_cost_aed''")
    case None
    then show ?thesis by (simp add: check_cost_constraint_def)
  next
    case c: (Some c)
    show ?thesis
    proof (cases "record ''base_price_aed''")
      case None
      with c show ?thesis by (simp add: check_cost_constraint_def)
    next
      case (Some b)
      with c emit_returns [OF validate_cost_constraint_returns] show ?thesis
        by (simp add: check_cost_constraint_def)
    qed
  qed
qed

lemma validate_sales_record_returns:
  assumes "list_all (\<lambda>k. case record k of None \<Rightarrow> True | Some v \<Rightarrow> printable L v) rendered_fields"
  shows "\<exists>xs. validate_sales_record L self record rid = Inr xs"
proof -
  note c = checks_return [OF assms]
  obtain i1 where i1: "check_order_time L record [] = Inr i1" using c(1) by blast
  obtain i2 where i2: "check_selling_price L record i1 = Inr i2" using c(2) by blast
  obtain i3 where i3: "check_qty L record i2 = Inr i3" using c(3) by blast
  obtain i4 where i4: "check_city L record i3 = Inr i4" using c(4) by blast
  obtain i5 where i5: "check_channel L record i4 = Inr i5" using c(5) by blast
  obtain i6 where i6: "check_payment_status L record i5 = Inr i6" using c(6) by blast
  obtain i7 where i7: "check_cost_constraint L record i6 = Inr i7" using c(7) by blast
  show ?thesis
    by (simp add: validate_sales_record_def bind_exn_def i1 i2 i3 i4 i5 i6 i7 check_missing_def)
qed

lemma validate_record_returns:
  assumes "list_all (\<lambda>k. case record k of None \<Rightarrow> True | Some v \<Rightarrow> printable L v) rendered_fields"
  shows "\<exists>xs. validate_record L self k record rid = Inr xs"
proof -
  have "\<exists>xs. validate_products_record L self record rid = Inr xs"
    using checks_return(7) [OF assms]
    by (simp add: validate_products_record_def bind_exn_def check_missing_def)
  then show ?thesis
    using validate_sales_record_returns [OF assms] checks_return(8) [OF assms]
    by (simp add: validate_record_def validate_inventory_record_def)
qed

lemma validate_rows_returns:
  assumes "list_all (row_ok L) df"
  shows "\<exists>out. validate_rows L self k df acc = Inr out"
  using assms
proof (induction df arbitrary: acc)
  case Nil
  then show ?case by simp
next
  case (Cons x df)
  obtain idx row where x: "x = (idx, row)" by (cases x)
  from Cons.prems obtain rid where rid: "resolve_record_id L idx row = Inr rid"
    and cells: "list_all (\<lambda>k. case row k of None \<Rightarrow> True | Some v \<Rightarrow> printable L v) rendered_fields"
    by (cases "resolve_record_id L idx row") (auto simp: x row_ok_def returns_def)
  from validate_record_returns [OF cells] obtain xs where "validate_record L self k row rid = Inr xs"
    by blast
  with rid Cons show ?case
    by (simp add: x bind_exn_def)
qed

lemma validate_dataset_returns:
  assumes "list_all (row_ok L) df"
  shows "\<exists>out. validate_dataset L self df k = Inr (out, self\<lparr>issues := out\<rparr>)"
  using validate_rows_returns [OF assms, where self = self and k = k and acc = "[]"]
  by (auto simp: validate_dataset_def)

text \<open>
  C8, as the code has it. Every rule returns a verdict for every value that \<^verbatim>\<open>str\<close> renders,
  and the cost constraint for every pair of values. A failed coercion makes the price,
  quantity and stock rules reject with "Not numeric", and a timestamp that matches the
  pattern and does not parse is rejected with "Unparsable"; the cost constraint turns a
  failed coercion into acceptance. A pass returns when the identifier of every row resolves
  and the cells that the rules render are printable.
\<close>

theorem C8_rules_total:
  "(printable L v \<longrightarrow>
      (\<exists>r. validate_timestamp L v = Inr r)
      \<and> (\<exists>r. validate_price L v = Inr r)
      \<and> (\<exists>r. validate_quantity L v = Inr r)
      \<and> (\<exists>r. validate_city L v = Inr r)
      \<and> (\<exists>r. validate_channel L v = Inr r)
      \<and> (\<exists>r. validate_payment_status L v = Inr r)
      \<and> (\<exists>r. validate_stock L v = Inr r))
   \<and> (\<exists>r. validate_cost_constraint L v w = Inr r)
   \<and> (py_float L v = Inl e \<and> py_str L v = Inr s \<longrightarrow>
        validate_price L v = Inr (False, Some (''Not numeric: '' @ s))
        \<and> validate_quantity L v = Inr (False, Some (''Not numeric: '' @ s))
        \<and> validate_stock L v = Inr (False, Some (''Not numeric: '' @ s)))
   \<and> (py_float L v = Inr x \<and> int_of_float x = Inl e \<and> py_str L v = Inr s \<longrightarrow>
        validate_quantity L v = Inr (False, Some (''Not numeric: '' @ s)))
   \<and> (\<not> pd_isna v \<and> \<not> is_empty_str v \<and> py_str L v = Inr s \<and> re_match TIMESTAMP_PATTERN s
        \<and> \<not> to_datetime_ok L v \<longrightarrow>
        validate_timestamp L v = Inr (False, Some (''Unparsable: '' @ s)))
   \<and> (py_float L v = Inl e \<or> py_float L w = Inl e' \<longrightarrow>
        validate_cost_constraint L v w = Inr (True, None))
   \<and> (list_all (row_ok L) df \<longrightarrow>
        (\<exists>out. validate_dataset L self df k = Inr (out, self\<lparr>issues := out\<rparr>)))"
proof (intro conjI impI)
  show "\<exists>r. validate_cost_constraint L v w = Inr r" by (rule validate_cost_constraint_returns)
next
  assume p: "printable L v"
  show "\<exists>r. validate_timestamp L v = Inr r" by (rule validate_timestamp_returns [OF p])
  show "\<exists>r. validate_price L v = Inr r" by (rule validate_price_returns [OF p])
  show "\<exists>r. validate_quantity L v = Inr r" by (rule validate_quantity_returns [OF p])
  show "\<exists>r. validate_city L v = Inr r" by (rule validate_city_returns [OF p])
  show "\<exists>r. validate_channel L v = Inr r" by (rule validate_channel_returns [OF p])
  show "\<exists>r. validate_payment_status L v = Inr r" by (rule validate_payment_status_returns [OF p])
  show "\<exists>r. validate_stock L v = Inr r" by (rule validate_stock_returns [OF p])
next
  assume a: "py_float L v = Inl e \<and> py_str L v = Inr s"
  then show "validate_price L v = Inr (False, Some (''Not numeric: '' @ s))"
    and "validate_quantity L v = Inr (False, Some (''Not numeric: '' @ s))"
    and "validate_stock L v = Inr (False, Some (''Not numeric: '' @ s))"
    by (simp_all add: not_numeric)
next
  assume "py_float L v = Inr x \<and> int_of_float x = Inl e \<and> py_str L v = Inr s"
  then show "validate_quantity L v = Inr (False, Some (''Not numeric: '' @ s))"
    by (simp add: not_integral)
next
  assume "\<not> pd_isna v \<and> \<not> is_empty_str v \<and> py_str L v = Inr s \<and> re_match TIMESTAMP_PATTERN s
        \<and> \<not> to_datetime_ok L v"
  then show "validate_timestamp L v = Inr (False, Some (''Unparsable: '' @ s))"
    by (simp add: unparsable)
next
  assume "py_float L v = Inl e \<or> py_float L w = Inl e'"
  then show "validate_cost_constraint L v w = Inr (True, None)"
    by (rule cost_permissive)
next
  assume "list_all (row_ok L) df"
  then show "\<exists>out. validate_dataset L self df k = Inr (out, self\<lparr>issues := out\<rparr>)"
    by (rule validate_dataset_returns)
qed

text \<open>
  A word as a price, NaN as a quantity, month 13 as a timestamp, no cost, a number as a
  city, and the dataset of scenario B.
\<close>

theorem C8_rules_total_witness:
  "validate_price lib_none (VStr ''abc'') = Inr (False, Some ''Not numeric: abc'')
   \<and> validate_quantity lib_none (VFloat FNaN) = Inr (False, Some ''Not numeric: nan'')
   \<and> validate_timestamp lib_none (VStr ''2024-13-40 99:99:99'')
       = Inr (False, Some ''Unparsable: 2024-13-40 99:99:99'')
   \<and> validate_cost_constraint lib_none VNone (VInt 50) = Inr (True, None)
   \<and> returns (validate_city lib_none (VInt 15000))
   \<and> returns (validate_dataset lib_none init_validator [(VInt 0, scenario_B)] ''sales'')"
proof -
  have "py_float lib_none (VStr ''abc'') = Inl ValueError \<and> py_str lib_none (VStr ''abc'') = Inr ''abc''"
    by (simp add: lib_none_def)
  with C8_rules_total [of lib_none "VStr ''abc''" _ ValueError "''abc''"]
  have 1: "validate_price lib_none (VStr ''abc'') = Inr (False, Some ''Not numeric: abc'')"
    by simp
  have "py_float lib_none (VFloat FNaN) = Inr FNaN \<and> int_of_float FNaN = Inl ValueError
        \<and> py_str lib_none (VFloat FNaN) = Inr ''nan''"
    by (simp add: float_repr_def)
  with C8_rules_total [of lib_none "VFloat FNaN" _ ValueError "''nan''" FNaN]
  have 2: "validate_quantity lib_none (VFloat FNaN) = Inr (False, Some ''Not numeric: nan'')"
    by simp
  have "\<not> pd_isna (VStr ''2024-13-40 99:99:99'') \<and> \<not> is_empty_str (VStr ''2024-13-40 99:99:99'')
        \<and> py_str lib_none (VStr ''2024-13-40 99:99:99'') = Inr ''2024-13-40 99:99:99''
        \<and> re_match TIMESTAMP_PATTERN ''2024-13-40 99:99:99''
        \<and> \<not> to_datetime_ok lib_none (VStr ''2024-13-40 99:99:99'')"
    by (simp add: re_match_def TIMESTAMP_PATTERN_def pattern_char_def lib_none_def)
  with C8_rules_total [of lib_none "VStr ''2024-13-40 99:99:99''" _ _ "''2024-13-40 99:99:99''"]
  have 3: "validate_timestamp lib_none (VStr ''2024-13-40 99:99:99'')
       = Inr (False, Some ''Unparsable: 2024-13-40 99:99:99'')"
    by simp
  have "py_float lib_none VNone = Inl TypeError" by simp
  with C8_rules_total [of lib_none VNone "VInt 50" TypeError]
  have 4: "validate_cost_constraint lib_none VNone (VInt 50) = Inr (True, None)"
    by simp
  have p: "printable lib_none (VInt 15000)"
    by (simp add: printable_def py_int_str_def int_str_def digits_str.simps)
  have "\<exists>r. validate_city lib_none (VInt 15000) = Inr r"
    using p C8_rules_total [of lib_none "VInt 15000" VNone TypeError "[]" FNaN TypeError "[]"
        init_validator "[]", THEN conjunct1]
    by (elim impE conjE) assumption+
  then have 5: "returns (validate_city lib_none (VInt 15000))"
    by (auto simp: returns_def)
  have "list_all (\<lambda>k. case scenario_B k of None \<Rightarrow> True | Some v \<Rightarrow> printable lib_none v)
          rendered_fields"
    by (simp add: rendered_fields_def scenario_B_def printable_def py_int_str_def int_str_def
          digits_str.simps)
  then have ok: "list_all (row_ok lib_none) [(VInt 0, scenario_B)]"
    by (simp add: row_ok_def scenario_B_identifier returns_def)
  have "\<exists>out. validate_dataset lib_none init_validator [(VInt 0, scenario_B)] ''sales'' =
          Inr (out, init_validator\<lparr>issues := out\<rparr>)"
    using ok C8_rules_total [of lib_none VNone VNone TypeError "[]" FNaN TypeError
        "[(VInt 0, scenario_B)]" init_validator "''sales''"]
    by (elim conjE) (erule mp)
  then have 6: "returns (validate_dataset lib_none init_validator [(VInt 0, scenario_B)] ''sales'')"
    by (auto simp: returns_def)
  from 1 2 3 4 5 6 show ?thesis by (intro conjI)
qed

text \<open>
  C8 as stated fails. The coercion of \<^verbatim>\<open>None\<close> fails and the cost constraint answers valid,
  with no diagnostic; and on an integer of 5001 digits the city rule and the price rule
  raise ValueError.
\<close>

theorem C8_rules_total_counterexample:
  "py_float lib_none VNone = Inl TypeError
   \<and> validate_cost_constraint lib_none VNone (VInt 50) = Inr (True, None)
   \<and> validate_city lib_none (VInt (10 ^ 5000)) = Inl ValueError
   \<and> validate_price lib_none (VInt (10 ^ 5000)) = Inl ValueError"
proof -
  have "py_str lib_none (VInt (10 ^ 5000)) = Inl ValueError"
    by (rule huge_int_not_printable) (simp_all add: lib_none_def power_increasing del: power_numeral)
  then have "validate_city lib_none (VInt (10 ^ 5000)) = Inl ValueError"
    by (simp add: validate_city_def bind_exn_def del: power_numeral)
  moreover have "validate_cost_constraint lib_none VNone (VInt 50) = Inr (True, None)"
    by (simp add: validate_cost_constraint_def try_except_def)
  ultimately show ?thesis
    by (simp add: huge_price_raises del: power_numeral)
qed

subsection \<open>An unknown dataset kind\<close>

lemma unknown_kind_no_issues:
  assumes "k \<notin> {''sales'', ''inventory'', ''products''}"
    and "validate_dataset L self df k = Inr (out, self')"
  shows "out = []"
proof -
  from assms(1) have "row_out L k x = []" for x
    by (cases x) (simp add: row_out_def record_issues_def split: sum.splits)
  with validate_dataset_result(1) [OF assms(2)] show ?thesis by simp
qed

lemma unknown_kind_returns:
  assumes "k \<notin> {''sales'', ''inventory'', ''products''}" and "list_all (row_ok L) df"
  shows "validate_dataset L self df k = Inr ([], self\<lparr>issues := []\<rparr>)"
proof -
  from validate_dataset_returns [OF assms(2)] obtain out
    where run: "validate_dataset L self df k = Inr (out, self\<lparr>issues := out\<rparr>)"
    by blast
  from unknown_kind_no_issues [OF assms(1) run] run show ?thesis by simp
qed

text \<open>
  C7, at the failing input. With the unknown kind \<^verbatim>\<open>returns\<close> and a row whose
  \<^verbatim>\<open>order_id\<close> is \<^verbatim>\<open>pd.NA\<close>, \<^verbatim>\<open>validate_dataset\<close> raises TypeError: the identifier is
  resolved for every row before the kind is looked at. When every identifier resolves, the
  pass returns the empty list, as the two lemmas above say.
\<close>

theorem C7_unknown_kind_raises:
  "validate_dataset lib_none init_validator [(VInt 0, na_order)] ''returns'' = Inl TypeError"
  by (simp add: validate_dataset_def resolve_record_id_def py_or_def bind_exn_def dict_get_def
        na_order_def)

end
